theory Spec2Isabelle
  imports Main
begin

section \<open>The audio extraction pipeline of app.py\<close>

text \<open>
  The program saves an uploaded video into a temporary directory, runs the external
  toolkit \<^verbatim>\<open>ffmpeg\<close> on it once to demux the audio into a WAV file and, for the
  target format \<^verbatim>\<open>mp3\<close>, a second time to re-encode the WAV, reads the final file
  into memory and returns its bytes. Everything the Python does besides returning a value
  is made explicit here: the file system, the list of \<^verbatim>\<open>subprocess.run\<close> calls, the
  messages shown with \<^verbatim>\<open>st.error\<close>, and every exception as a value.

  Python's \<^verbatim>\<open>bytes\<close> is a list of 8-bit characters. A Python \<^verbatim>\<open>str\<close> is represented
  by its UTF-8 encoding, so it is a list of 8-bit characters too; \<^verbatim>\<open>bytes.decode()\<close>
  is then the identity on well-formed UTF-8 and raises on anything else.
\<close>

type_synonym bytes = string

subsection \<open>Exceptions\<close>

datatype exn =
    FileNotFoundError
  | FileExistsError
  | IsADirectoryError
  | NotADirectoryError
  | ValueError
  | UnicodeDecodeError
  | CalledProcessError int bytes

subsection \<open>The file system\<close>

text \<open>
  A node is a directory or a regular file; the file system maps a resolved path (the list
  of its components, the root being the empty list) to the node found there. Symbolic
  links, permissions and quotas are outside the model, so the only I/O failures are
  those the path itself causes.
\<close>

datatype node = Dir | File bytes

type_synonym filesystem = "string list \<rightharpoonup> node"

record world =
  fs :: filesystem
  calls :: "string list list"
  errors :: "string list"

text \<open>Splitting a path string at each separator; the result is never empty.\<close>

fun split_path :: "string \<Rightarrow> string list" where
  "split_path [] = [[]]"
| "split_path (c # cs) =
     (if c = CHR ''/'' then [] # split_path cs
      else (case split_path cs of [] \<Rightarrow> [[c]] | x # xs \<Rightarrow> (c # x) # xs))"

text \<open>
  POSIX path resolution without symbolic links: before a component is consumed the
  directory reached so far must exist and be a directory. The working directory of the
  process is taken to be the root, so that a relative path is resolved from there; the
  name of the temporary directory is absolute in every run, which makes every path of
  the pipeline absolute.
\<close>

fun walk :: "filesystem \<Rightarrow> string list \<Rightarrow> string list \<Rightarrow> exn + string list" where
  "walk f cur [] = Inr cur"
| "walk f cur (c # cs) =
     (case f cur of
        None \<Rightarrow> Inl FileNotFoundError
      | Some (File _) \<Rightarrow> Inl NotADirectoryError
      | Some Dir \<Rightarrow>
          if c = [] \<or> c = ''.'' then walk f cur cs
          else if c = ''..'' then walk f (butlast cur) cs
          else walk f (cur @ [c]) cs)"

definition resolve :: "filesystem \<Rightarrow> string \<Rightarrow> exn + string list" where
  "resolve f p =
     (if CHR 0x00 \<in> set p then Inl ValueError
      else if p = [] then Inl FileNotFoundError
      else walk f [] (split_path p))"

text \<open>\<^verbatim>\<open>with open(p, "wb") as f: f.write(data)\<close>: creates or truncates the file.\<close>

definition open_write :: "string \<Rightarrow> bytes \<Rightarrow> world \<Rightarrow> exn + world" where
  "open_write p data w =
     (case resolve (fs w) p of
        Inl e \<Rightarrow> Inl e
      | Inr q \<Rightarrow>
          (case fs w q of
             Some Dir \<Rightarrow> Inl IsADirectoryError
           | Some (File _) \<Rightarrow> Inr (w\<lparr>fs := (fs w)(q \<mapsto> File data)\<rparr>)
           | None \<Rightarrow>
               if q \<noteq> [] \<and> fs w (butlast q) = Some Dir
               then Inr (w\<lparr>fs := (fs w)(q \<mapsto> File data)\<rparr>)
               else Inl FileNotFoundError))"

text \<open>\<^verbatim>\<open>with open(p, "rb") as f: f.read()\<close>.\<close>

definition open_read :: "string \<Rightarrow> world \<Rightarrow> exn + bytes" where
  "open_read p w =
     (case resolve (fs w) p of
        Inl e \<Rightarrow> Inl e
      | Inr q \<Rightarrow>
          (case fs w q of
             None \<Rightarrow> Inl FileNotFoundError
           | Some Dir \<Rightarrow> Inl IsADirectoryError
           | Some (File data) \<Rightarrow> Inr data))"

text \<open>
  \<^verbatim>\<open>os.path.join(a, b)\<close> of posixpath: an absolute second part replaces the first.
\<close>

definition path_join :: "string \<Rightarrow> string \<Rightarrow> string" where
  "path_join a b =
     (if b \<noteq> [] \<and> hd b = CHR ''/'' then b
      else if a = [] \<or> last a = CHR ''/'' then a @ b
      else a @ ''/'' @ b)"

subsection \<open>The temporary directory\<close>

text \<open>
  \<^verbatim>\<open>tempfile.TemporaryDirectory()\<close> creates a directory under a name that the
  environment picks; the name is the parameter \<open>temp_dir\<close> of the model. Entering the
  block makes the directory (as \<^verbatim>\<open>os.mkdir\<close> does, raising when it cannot); leaving
  the block, normally or by an exception, removes the directory with everything below it.
  The removal itself is taken to succeed.
\<close>

definition mkdtemp :: "string \<Rightarrow> world \<Rightarrow> exn + (string list \<times> world)" where
  "mkdtemp temp_dir w =
     (case resolve (fs w) temp_dir of
        Inl e \<Rightarrow> Inl e
      | Inr q \<Rightarrow>
          (case fs w q of
             Some n \<Rightarrow> Inl FileExistsError
           | None \<Rightarrow>
               if q \<noteq> [] \<and> fs w (butlast q) = Some Dir
               then Inr (q, w\<lparr>fs := (fs w)(q \<mapsto> Dir)\<rparr>)
               else Inl FileNotFoundError))"

text \<open>The path \<open>p\<close> is the directory \<open>d\<close> or lies beneath it.\<close>

definition below :: "string list \<Rightarrow> string list \<Rightarrow> bool" where
  "below d p = (take (length d) p = d)"

definition rmtree :: "string list \<Rightarrow> filesystem \<Rightarrow> filesystem" where
  "rmtree d f = (\<lambda>p. if below d p then None else f p)"

definition cleanup :: "string list \<Rightarrow> world \<Rightarrow> world" where
  "cleanup d w = w\<lparr>fs := rmtree d (fs w)\<rparr>"

subsection \<open>Decoding, logging, running a process\<close>

text \<open>Strict UTF-8, as \<^verbatim>\<open>bytes.decode()\<close> checks it.\<close>

definition cont :: "nat \<Rightarrow> bool" where
  "cont b = (0x80 \<le> b \<and> b \<le> 0xBF)"

fun utf8_valid :: "nat list \<Rightarrow> bool" where
  "utf8_valid [] = True"
| "utf8_valid (b # bs) =
     (if b < 0x80 then utf8_valid bs
      else if 0xC2 \<le> b \<and> b \<le> 0xDF then
        (case bs of c1 # r \<Rightarrow> cont c1 \<and> utf8_valid r | _ \<Rightarrow> False)
      else if 0xE0 \<le> b \<and> b \<le> 0xEF then
        (case bs of c1 # c2 # r \<Rightarrow>
           (if b = 0xE0 then 0xA0 \<le> c1 \<and> c1 \<le> 0xBF
            else if b = 0xED then 0x80 \<le> c1 \<and> c1 \<le> 0x9F
            else cont c1) \<and> cont c2 \<and> utf8_valid r
         | _ \<Rightarrow> False)
      else if 0xF0 \<le> b \<and> b \<le> 0xF4 then
        (case bs of c1 # c2 # c3 # r \<Rightarrow>
           (if b = 0xF0 then 0x90 \<le> c1 \<and> c1 \<le> 0xBF
            else if b = 0xF4 then 0x80 \<le> c1 \<and> c1 \<le> 0x8F
            else cont c1) \<and> cont c2 \<and> cont c3 \<and> utf8_valid r
         | _ \<Rightarrow> False)
      else False)"

definition decode :: "bytes \<Rightarrow> exn + string" where
  "decode b = (if utf8_valid (map of_char b) then Inr b else Inl UnicodeDecodeError)"

definition st_error :: "string \<Rightarrow> world \<Rightarrow> world" where
  "st_error msg w = w\<lparr>errors := errors w @ [msg]\<rparr>"

text \<open>
  The toolkit is outside the program. When the executable is on the search path it is a
  function from its arguments and the file system to an exit status, the bytes written to
  its error stream and the file system it leaves; when it is not, there is none.
\<close>

type_synonym program = "string list \<Rightarrow> filesystem \<Rightarrow> int \<times> bytes \<times> filesystem"

type_synonym toolkit = "program option"

text \<open>
  \<^verbatim>\<open>subprocess.run(argv, check=True, capture_output=True)\<close>. Every call is recorded
  in \<open>calls\<close> with its full argument vector. An argument with a NUL byte is refused
  before anything is started; a nonzero exit status raises.
\<close>

definition subprocess_run :: "toolkit \<Rightarrow> string list \<Rightarrow> world \<Rightarrow> (exn + unit) \<times> world" where
  "subprocess_run tk argv w =
     (let w1 = w\<lparr>calls := calls w @ [argv]\<rparr> in
      if CHR 0x00 \<in> set (concat argv) then (Inl ValueError, w1)
      else
        (case tk of
           None \<Rightarrow> (Inl FileNotFoundError, w1)
         | Some prog \<Rightarrow>
             (case prog (tl argv) (fs w1) of
                (rc, err, f') \<Rightarrow>
                  if rc \<noteq> 0 then (Inl (CalledProcessError rc err), w1\<lparr>fs := f'\<rparr>)
                  else (Inr (), w1\<lparr>fs := f'\<rparr>))))"

subsection \<open>FFmpeg utilities\<close>

definition extract_audio_ffmpeg ::
  "toolkit \<Rightarrow> string \<Rightarrow> string \<Rightarrow> world \<Rightarrow> (exn + unit) \<times> world" where
  "extract_audio_ffmpeg tk video_path output_wav_path w =
     (case subprocess_run tk
             [''ffmpeg'', ''-y'', ''-i'', video_path,
              ''-vn'', ''-acodec'', ''pcm_s16le'',
              output_wav_path] w of
        (Inr u, w1) \<Rightarrow> (Inr (), w1)
      | (Inl (CalledProcessError rc err), w1) \<Rightarrow>
          (case decode err of
             Inl e \<Rightarrow> (Inl e, w1)
           | Inr txt \<Rightarrow>
               (Inl (CalledProcessError rc err),
                st_error (''FFmpeg extraction failed! Output: '' @ txt) w1))
      | (Inl FileNotFoundError, w1) \<Rightarrow>
          (Inl FileNotFoundError,
           st_error ''FFmpeg not found. Please ensure it is installed and in your system PATH.'' w1)
      | (Inl e, w1) \<Rightarrow> (Inl e, w1))"

definition convert_to_mp3_ffmpeg ::
  "toolkit \<Rightarrow> string \<Rightarrow> string \<Rightarrow> world \<Rightarrow> (exn + unit) \<times> world" where
  "convert_to_mp3_ffmpeg tk input_wav_path output_mp3_path w =
     (case subprocess_run tk
             [''ffmpeg'', ''-y'', ''-i'', input_wav_path,
              ''-acodec'', ''libmp3lame'',
              ''-q:a'', ''2'',
              output_mp3_path] w of
        (Inr u, w1) \<Rightarrow> (Inr (), w1)
      | (Inl (CalledProcessError rc err), w1) \<Rightarrow>
          (case decode err of
             Inl e \<Rightarrow> (Inl e, w1)
           | Inr txt \<Rightarrow>
               (Inl (CalledProcessError rc err),
                st_error (''FFmpeg MP3 conversion failed! Output: '' @ txt) w1))
      | (Inl e, w1) \<Rightarrow> (Inl e, w1))"

subsection \<open>Core processing logic\<close>

text \<open>The three paths that the entry point builds inside the temporary directory.\<close>

definition temp_video_path :: "string \<Rightarrow> string \<Rightarrow> string" where
  "temp_video_path temp_dir original_filename = path_join temp_dir original_filename"

definition temp_audio_wav :: "string \<Rightarrow> string" where
  "temp_audio_wav temp_dir = path_join temp_dir ''temp_audio.wav''"

definition final_audio_path :: "string \<Rightarrow> string \<Rightarrow> string" where
  "final_audio_path temp_dir output_format =
     path_join temp_dir (''extracted_audio.'' @ output_format)"

text \<open>The body of the \<^verbatim>\<open>try\<close> block: steps 2 to 4.\<close>

definition try_body ::
  "toolkit \<Rightarrow> string \<Rightarrow> string \<Rightarrow> string \<Rightarrow> world \<Rightarrow> (exn + bytes) \<times> world" where
  "try_body tk temp_dir original_filename output_format w =
     (case extract_audio_ffmpeg tk (temp_video_path temp_dir original_filename)
             (temp_audio_wav temp_dir) w of
        (Inl e, w1) \<Rightarrow> (Inl e, w1)
      | (Inr u, w1) \<Rightarrow>
          if output_format = ''mp3'' then
            (case convert_to_mp3_ffmpeg tk (temp_audio_wav temp_dir)
                    (final_audio_path temp_dir output_format) w1 of
               (Inl e, w2) \<Rightarrow> (Inl e, w2)
             | (Inr u, w2) \<Rightarrow>
                 (case open_read (final_audio_path temp_dir output_format) w2 of
                    Inl e \<Rightarrow> (Inl e, w2)
                  | Inr audio_bytes \<Rightarrow> (Inr audio_bytes, w2)))
          else
            (case open_read (temp_audio_wav temp_dir) w1 of
               Inl e \<Rightarrow> (Inl e, w1)
             | Inr audio_bytes \<Rightarrow> (Inr audio_bytes, w1)))"

text \<open>
  The entry point without its decorator. \<open>Inl e\<close>: the exception \<open>e\<close> leaves the
  function; \<open>Inr None\<close>: it returns \<^verbatim>\<open>None\<close>; \<open>Inr (Some b)\<close>: it returns the bytes.
  The target format is always given here; in the source it defaults to \<^verbatim>\<open>mp3\<close>.
\<close>

definition extract_audio_for_download ::
  "toolkit \<Rightarrow> string \<Rightarrow> bytes \<Rightarrow> string \<Rightarrow> string \<Rightarrow> world \<Rightarrow> (exn + bytes option) \<times> world" where
  "extract_audio_for_download tk temp_dir video_bytes original_filename output_format w =
     (case mkdtemp temp_dir w of
        Inl e \<Rightarrow> (Inl e, w)
      | Inr (d, w0) \<Rightarrow>
          (case open_write (temp_video_path temp_dir original_filename) video_bytes w0 of
             Inl e \<Rightarrow> (Inl e, cleanup d w0)
           | Inr w1 \<Rightarrow>
               (case try_body tk temp_dir original_filename output_format w1 of
                  (Inr audio_bytes, w2) \<Rightarrow> (Inr (Some audio_bytes), cleanup d w2)
                | (Inl e, w2) \<Rightarrow> (Inr None, cleanup d w2))))"

subsection \<open>The memoising decorator\<close>

text \<open>
  The entry point is decorated with \<^verbatim>\<open>@st.cache_data\<close>. The decorator belongs to the
  Streamlit library, and the model follows its documented behaviour: it keeps, per
  argument triple, the value the function returned and the messages it displayed; a later
  call with the same triple returns the stored value and replays the messages without
  running the function; a call that raises stores nothing. The key is the triple itself.
\<close>

type_synonym cache = "(bytes \<times> string \<times> string) \<rightharpoonup> (bytes option \<times> string list)"

definition cached_extract_audio_for_download ::
  "toolkit \<Rightarrow> string \<Rightarrow> bytes \<Rightarrow> string \<Rightarrow> string \<Rightarrow> cache \<times> world
     \<Rightarrow> (exn + bytes option) \<times> cache \<times> world" where
  "cached_extract_audio_for_download tk temp_dir video_bytes original_filename output_format cw =
     (case cw of (c, w) \<Rightarrow>
        (case c (video_bytes, original_filename, output_format) of
           Some (v, msgs) \<Rightarrow> (Inr v, c, w\<lparr>errors := errors w @ msgs\<rparr>)
         | None \<Rightarrow>
             (case extract_audio_for_download tk temp_dir video_bytes original_filename
                     output_format w of
                (Inl e, w') \<Rightarrow> (Inl e, c, w')
              | (Inr v, w') \<Rightarrow>
                  (Inr v,
                   c((video_bytes, original_filename, output_format) \<mapsto>
                       (v, drop (length (errors w)) (errors w'))),
                   w'))))"

subsection \<open>The quality scale of the specification\<close>

text \<open>
  The specification places the compression profile on a scale of ten steps, 0 to 9, on
  which 0 is the highest fidelity; its second-highest step is the one after the first.
  These two definitions follow the specification's words, not the code.
\<close>

definition quality_scale :: "nat list" where
  "quality_scale = [0..<10]"

definition second_highest_step :: nat where
  "second_highest_step = quality_scale ! 1"

text \<open>The step that a one-digit argument of \<^verbatim>\<open>-q:a\<close> names.\<close>

definition step_of_text :: "string \<Rightarrow> nat option" where
  "step_of_text s =
     (case s of
        [c] \<Rightarrow> (let n = of_char c in if (48::nat) \<le> n \<and> n \<le> 57 then Some (n - 48) else None)
      | _ \<Rightarrow> None)"

subsection \<open>Assumptions on the environment\<close>





subsection \<open>Sample environments\<close>

text \<open>
  A file system with a root and \<^verbatim>\<open>/tmp\<close>; the same once the temporary directory
  \<^verbatim>\<open>/tmp/ws\<close> exists, and once a file has been written into it.
\<close>

definition sample_fs :: filesystem where
  "sample_fs = [[] \<mapsto> Dir, [''tmp''] \<mapsto> Dir]"

definition sample_world :: world where
  "sample_world = \<lparr>fs = sample_fs, calls = [], errors = []\<rparr>"

definition sample_workspace :: world where
  "sample_workspace = sample_world\<lparr>fs := sample_fs([''tmp'', ''ws''] \<mapsto> Dir)\<rparr>"

definition sample_persisted :: "string \<Rightarrow> bytes \<Rightarrow> world" where
  "sample_persisted name data =
     sample_world\<lparr>fs := sample_fs([''tmp'', ''ws''] \<mapsto> Dir,
                                  [''tmp'', ''ws'', name] \<mapsto> File data)\<rparr>"

text \<open>
  Four toolkits: one that writes its output file and exits with status 0, one that exits
  with status 1 after printing a diagnostic, one built without the MP3 encoder, and one
  that exits with status 0 but writes nothing.
\<close>

definition writing_ffmpeg :: program where
  "writing_ffmpeg args f =
     (case resolve f (last args) of
        Inl e \<Rightarrow> (1, ''cannot open the output'', f)
      | Inr q \<Rightarrow>
          (0, [], f(q \<mapsto> File (if ''libmp3lame'' \<in> set args then ''ID3'' else ''RIFF''))))"

definition failing_ffmpeg :: "bytes \<Rightarrow> program" where
  "failing_ffmpeg diagnostic args f = (1, diagnostic, f)"

definition wav_only_ffmpeg :: program where
  "wav_only_ffmpeg args f =
     (if ''libmp3lame'' \<in> set args then (1, ''Unknown encoder libmp3lame'', f)
      else writing_ffmpeg args f)"

definition idle_ffmpeg :: program where
  "idle_ffmpeg args f = (0, [], f)"

section \<open>Properties\<close>

lemmas model_defs =
  extract_audio_for_download_def try_body_def extract_audio_ffmpeg_def convert_to_mp3_ffmpeg_def
  subprocess_run_def mkdtemp_def open_write_def open_read_def resolve_def cleanup_def rmtree_def
  below_def
  temp_video_path_def temp_audio_wav_def final_audio_path_def path_join_def decode_def cont_def
  st_error_def sample_world_def sample_fs_def writing_ffmpeg_def failing_ffmpeg_def
  wav_only_ffmpeg_def idle_ffmpeg_def sample_workspace_def sample_persisted_def

subsection \<open>The calls of the toolkit\<close>

lemma subprocess_run_calls:
  "calls (snd (subprocess_run tk argv w)) = calls w @ [argv]"
  by (simp add: subprocess_run_def Let_def split: option.splits prod.splits)

lemma subprocess_run_errors:
  "errors (snd (subprocess_run tk argv w)) = errors w"
  by (simp add: subprocess_run_def Let_def split: option.splits prod.splits)

lemma extract_audio_ffmpeg_calls:
  "calls (snd (extract_audio_ffmpeg tk v out w)) =
     calls w @ [[''ffmpeg'', ''-y'', ''-i'', v, ''-vn'', ''-acodec'', ''pcm_s16le'', out]]"
proof -
  let ?argv = "[''ffmpeg'', ''-y'', ''-i'', v, ''-vn'', ''-acodec'', ''pcm_s16le'', out]"
  obtain r w1 where run: "subprocess_run tk ?argv w = (r, w1)"
    by (cases "subprocess_run tk ?argv w")
  have c: "calls w1 = calls w @ [?argv]"
    using subprocess_run_calls [of tk ?argv w] run by simp
  show ?thesis
    unfolding extract_audio_ffmpeg_def run
    by (simp add: c st_error_def split: sum.splits exn.splits)
qed

lemma convert_to_mp3_ffmpeg_calls:
  "calls (snd (convert_to_mp3_ffmpeg tk inp out w)) =
     calls w @ [[''ffmpeg'', ''-y'', ''-i'', inp, ''-acodec'', ''libmp3lame'', ''-q:a'', ''2'', out]]"
proof -
  let ?argv = "[''ffmpeg'', ''-y'', ''-i'', inp, ''-acodec'', ''libmp3lame'', ''-q:a'', ''2'', out]"
  obtain r w1 where run: "subprocess_run tk ?argv w = (r, w1)"
    by (cases "subprocess_run tk ?argv w")
  have c: "calls w1 = calls w @ [?argv]"
    using subprocess_run_calls [of tk ?argv w] run by simp
  show ?thesis
    unfolding convert_to_mp3_ffmpeg_def run
    by (simp add: c st_error_def split: sum.splits exn.splits)
qed

lemma try_body_calls:
  "calls (snd (try_body tk td fn fmt w)) =
     calls w @
     [[''ffmpeg'', ''-y'', ''-i'', temp_video_path td fn, ''-vn'', ''-acodec'', ''pcm_s16le'',
       temp_audio_wav td]] @
     (case fst (extract_audio_ffmpeg tk (temp_video_path td fn) (temp_audio_wav td) w) of
        Inl e \<Rightarrow> []
      | Inr u \<Rightarrow>
          if fmt = ''mp3'' then
            [[''ffmpeg'', ''-y'', ''-i'', temp_audio_wav td, ''-acodec'', ''libmp3lame'',
              ''-q:a'', ''2'', final_audio_path td fmt]]
          else [])"
proof -
  obtain r w1 where ex: "extract_audio_ffmpeg tk (temp_video_path td fn) (temp_audio_wav td) w = (r, w1)"
    by (cases "extract_audio_ffmpeg tk (temp_video_path td fn) (temp_audio_wav td) w")
  have c1: "calls w1 = calls w @
     [[''ffmpeg'', ''-y'', ''-i'', temp_video_path td fn, ''-vn'', ''-acodec'', ''pcm_s16le'',
       temp_audio_wav td]]"
    using extract_audio_ffmpeg_calls [of tk "temp_video_path td fn" "temp_audio_wav td" w] ex
    by simp
  obtain r2 w2 where cv: "convert_to_mp3_ffmpeg tk (temp_audio_wav td) (final_audio_path td fmt) w1 = (r2, w2)"
    by (cases "convert_to_mp3_ffmpeg tk (temp_audio_wav td) (final_audio_path td fmt) w1")
  have c2: "calls w2 = calls w1 @
     [[''ffmpeg'', ''-y'', ''-i'', temp_audio_wav td, ''-acodec'', ''libmp3lame'',
              ''-q:a'', ''2'', final_audio_path td fmt]]"
    using convert_to_mp3_ffmpeg_calls [of tk "temp_audio_wav td" "final_audio_path td fmt" w1] cv
    by simp
  show ?thesis
  proof (cases "fmt = ''mp3''")
    case True
    then show ?thesis
      using cv c1 c2 unfolding try_body_def ex
      by (simp split: sum.splits)
  next
    case False
    then show ?thesis
      using c1 unfolding try_body_def ex
      by (simp split: sum.splits)
  qed
qed

text \<open>
  Claim C6. Every extraction hands the toolkit exactly the arguments
  \<^verbatim>\<open>-y -i <inputVideoPath> -vn -acodec pcm_s16le <outputWavPath>\<close> and every compression
  exactly \<^verbatim>\<open>-y -i <inputWavPath> -acodec libmp3lame -q:a 2 <outputPath>\<close>, in this order:
  whatever the toolkit and the state, each utility adds one call to the record, and that
  call is the executable's name followed by this list.
\<close>

theorem toolkit_argument_lists:
  "calls (snd (extract_audio_ffmpeg tk inputVideoPath outputWavPath w)) =
     calls w @ [''ffmpeg'' #
       [''-y'', ''-i'', inputVideoPath, ''-vn'', ''-acodec'', ''pcm_s16le'', outputWavPath]]
   \<and> calls (snd (convert_to_mp3_ffmpeg tk' inputWavPath outputPath w')) =
     calls w' @ [''ffmpeg'' #
       [''-y'', ''-i'', inputWavPath, ''-acodec'', ''libmp3lame'', ''-q:a'', ''2'', outputPath]]"
  by (simp add: extract_audio_ffmpeg_calls convert_to_mp3_ffmpeg_calls)

theorem toolkit_argument_lists_witness:
  "calls (snd (extract_audio_ffmpeg (Some writing_ffmpeg) ''/tmp/ws/clip.mp4''
      ''/tmp/ws/temp_audio.wav'' sample_world)) =
     [[''ffmpeg'', ''-y'', ''-i'', ''/tmp/ws/clip.mp4'', ''-vn'', ''-acodec'', ''pcm_s16le'',
       ''/tmp/ws/temp_audio.wav'']]
   \<and> calls (snd (convert_to_mp3_ffmpeg None ''/tmp/ws/temp_audio.wav''
      ''/tmp/ws/extracted_audio.mp3'' sample_world)) =
     [[''ffmpeg'', ''-y'', ''-i'', ''/tmp/ws/temp_audio.wav'', ''-acodec'', ''libmp3lame'',
       ''-q:a'', ''2'', ''/tmp/ws/extracted_audio.mp3'']]"
  using toolkit_argument_lists [of "Some writing_ffmpeg" "''/tmp/ws/clip.mp4''"
      "''/tmp/ws/temp_audio.wav''" sample_world None "''/tmp/ws/temp_audio.wav''"
      "''/tmp/ws/extracted_audio.mp3''" sample_world]
  by (simp add: sample_world_def)

subsection \<open>The compression profile\<close>

text \<open>
  Claim C5, as amended. For the target format \<^verbatim>\<open>mp3\<close> the encoder re-encodes the
  intermediate WAV with \<^verbatim>\<open>libmp3lame\<close> and the variable-bitrate quality argument
  \<^verbatim>\<open>-q:a 2\<close>. On the scale 0 to 9 with 0 the highest fidelity this is the third-highest
  step: exactly the two steps 0 and 1 rank above it.
\<close>

theorem compression_quality_step:
  "last (calls (snd (convert_to_mp3_ffmpeg tk inp out w))) ! 4 = ''-acodec''
   \<and> last (calls (snd (convert_to_mp3_ffmpeg tk inp out w))) ! 5 = ''libmp3lame''
   \<and> last (calls (snd (convert_to_mp3_ffmpeg tk inp out w))) ! 6 = ''-q:a''
   \<and> step_of_text (last (calls (snd (convert_to_mp3_ffmpeg tk inp out w))) ! 7) =
       Some (quality_scale ! 2)
   \<and> filter (\<lambda>q. q < quality_scale ! 2) quality_scale = [0, 1]
   \<and> (fst (extract_audio_ffmpeg tk (temp_video_path td fn) (temp_audio_wav td) w') = Inr ()
        \<longrightarrow> calls (snd (try_body tk td fn ''mp3'' w')) =
          calls w' @
          [[''ffmpeg'', ''-y'', ''-i'', temp_video_path td fn, ''-vn'', ''-acodec'',
            ''pcm_s16le'', temp_audio_wav td],
           [''ffmpeg'', ''-y'', ''-i'', temp_audio_wav td, ''-acodec'', ''libmp3lame'',
            ''-q:a'', ''2'', final_audio_path td ''mp3'']])"
proof -
  have q: "quality_scale ! 2 = 2"
    by (simp add: quality_scale_def)
  have f: "filter (\<lambda>q. q < 2) quality_scale = [0, 1]"
    unfolding quality_scale_def by code_simp
  show ?thesis
    by (simp add: convert_to_mp3_ffmpeg_calls try_body_calls q f step_of_text_def)
qed

text \<open>
  The claim as first stated, with the second-highest step, fails on a compression call.
\<close>

theorem compression_quality_step_not_second:
  "step_of_text (last (calls (snd (convert_to_mp3_ffmpeg (Some writing_ffmpeg)
        ''/tmp/ws/temp_audio.wav'' ''/tmp/ws/extracted_audio.mp3'' sample_world))) ! 7)
     \<noteq> Some second_highest_step"
  by (simp add: convert_to_mp3_ffmpeg_calls step_of_text_def second_highest_step_def
      quality_scale_def)

theorem compression_quality_step_witness:
  "fst (extract_audio_ffmpeg (Some writing_ffmpeg) (temp_video_path ''/tmp/ws'' ''clip.mp4'')
          (temp_audio_wav ''/tmp/ws'')
          (sample_persisted ''clip.mp4'' ''VID'')) = Inr ()
   \<and> calls (snd (try_body (Some writing_ffmpeg) ''/tmp/ws'' ''clip.mp4'' ''mp3''
          (sample_persisted ''clip.mp4'' ''VID''))) =
       [[''ffmpeg'', ''-y'', ''-i'', ''/tmp/ws/clip.mp4'', ''-vn'', ''-acodec'',
            ''pcm_s16le'', ''/tmp/ws/temp_audio.wav''],
           [''ffmpeg'', ''-y'', ''-i'', ''/tmp/ws/temp_audio.wav'', ''-acodec'', ''libmp3lame'',
            ''-q:a'', ''2'', ''/tmp/ws/extracted_audio.mp3'']]
   \<and> step_of_text (last (calls (snd (convert_to_mp3_ffmpeg (Some writing_ffmpeg)
         ''/tmp/ws/temp_audio.wav'' ''/tmp/ws/extracted_audio.mp3'' sample_world))) ! 7) = Some 2"
proof -
  let ?w = "sample_persisted ''clip.mp4'' ''VID''"
  have h: "fst (extract_audio_ffmpeg (Some writing_ffmpeg) (temp_video_path ''/tmp/ws'' ''clip.mp4'')
          (temp_audio_wav ''/tmp/ws'') ?w) = Inr ()"
    by (simp add: model_defs)
  have p: "temp_video_path ''/tmp/ws'' ''clip.mp4'' = ''/tmp/ws/clip.mp4''"
     "temp_audio_wav ''/tmp/ws'' = ''/tmp/ws/temp_audio.wav''"
     "final_audio_path ''/tmp/ws'' ''mp3'' = ''/tmp/ws/extracted_audio.mp3''"
    by (simp_all add: model_defs)
  have q: "quality_scale ! 2 = 2"
    by (simp add: quality_scale_def)
  have c: "calls ?w = []"
    by (simp add: sample_persisted_def sample_world_def)
  from compression_quality_step [of "Some writing_ffmpeg" "''/tmp/ws/temp_audio.wav''"
      "''/tmp/ws/extracted_audio.mp3''" sample_world "''/tmp/ws''" "''clip.mp4''" ?w] h
  show ?thesis
    by (simp add: p q c)
qed

subsection \<open>Source path and artifact paths\<close>

text \<open>
  Claim C9. Nothing keeps the path of the persisted source apart from the artifact paths.
  With the filename \<^verbatim>\<open>temp_audio.wav\<close> the source path is the intermediate WAV path,
  and the extraction is called with the overwrite flag and the same file as input and
  output; with the filename \<^verbatim>\<open>extracted_audio.mp3\<close> and the target format
  \<^verbatim>\<open>mp3\<close> the source path is the final artifact path, and the compression is called
  with the overwrite flag and the source file as its output.
\<close>

theorem source_path_may_equal_artifact_path:
  "temp_video_path temp_dir ''temp_audio.wav'' = temp_audio_wav temp_dir
   \<and> temp_video_path temp_dir ''extracted_audio.mp3'' = final_audio_path temp_dir ''mp3''
   \<and> calls (snd (try_body tk temp_dir ''temp_audio.wav'' fmt w)) ! length (calls w) =
       [''ffmpeg'', ''-y'', ''-i'', temp_audio_wav temp_dir, ''-vn'', ''-acodec'', ''pcm_s16le'',
        temp_audio_wav temp_dir]
   \<and> (fst (extract_audio_ffmpeg tk (temp_video_path temp_dir ''extracted_audio.mp3'')
              (temp_audio_wav temp_dir) w') = Inr ()
        \<longrightarrow> calls (snd (try_body tk temp_dir ''extracted_audio.mp3'' ''mp3'' w')) !
              Suc (length (calls w')) =
            [''ffmpeg'', ''-y'', ''-i'', temp_audio_wav temp_dir, ''-acodec'', ''libmp3lame'',
             ''-q:a'', ''2'', temp_video_path temp_dir ''extracted_audio.mp3''])"
proof -
  have a: "temp_video_path temp_dir ''temp_audio.wav'' = temp_audio_wav temp_dir"
    by (simp add: temp_video_path_def temp_audio_wav_def)
  have b: "temp_video_path temp_dir ''extracted_audio.mp3'' = final_audio_path temp_dir ''mp3''"
    by (simp add: temp_video_path_def final_audio_path_def)
  have c: "calls (snd (try_body tk temp_dir ''temp_audio.wav'' fmt w)) ! length (calls w) =
       [''ffmpeg'', ''-y'', ''-i'', temp_audio_wav temp_dir, ''-vn'', ''-acodec'', ''pcm_s16le'',
        temp_audio_wav temp_dir]"
    by (simp add: try_body_calls a nth_append)
  have d: "fst (extract_audio_ffmpeg tk (temp_video_path temp_dir ''extracted_audio.mp3'')
              (temp_audio_wav temp_dir) w') = Inr ()
        \<Longrightarrow> calls (snd (try_body tk temp_dir ''extracted_audio.mp3'' ''mp3'' w')) !
              Suc (length (calls w')) =
            [''ffmpeg'', ''-y'', ''-i'', temp_audio_wav temp_dir, ''-acodec'', ''libmp3lame'',
             ''-q:a'', ''2'', temp_video_path temp_dir ''extracted_audio.mp3'']"
    by (simp add: try_body_calls b nth_append)
  from a b c d show ?thesis by blast
qed

theorem source_path_may_equal_artifact_path_witness:
  "temp_video_path ''/tmp/ws'' ''temp_audio.wav'' = ''/tmp/ws/temp_audio.wav''
   \<and> temp_audio_wav ''/tmp/ws'' = ''/tmp/ws/temp_audio.wav''
   \<and> temp_video_path ''/tmp/ws'' ''extracted_audio.mp3'' = ''/tmp/ws/extracted_audio.mp3''
   \<and> final_audio_path ''/tmp/ws'' ''mp3'' = ''/tmp/ws/extracted_audio.mp3''
   \<and> fs (sample_persisted ''extracted_audio.mp3'' ''VIDEO'')
         [''tmp'', ''ws'', ''extracted_audio.mp3''] = Some (File ''VIDEO'')
   \<and> fst (extract_audio_ffmpeg (Some writing_ffmpeg)
          (temp_video_path ''/tmp/ws'' ''extracted_audio.mp3'') (temp_audio_wav ''/tmp/ws'')
          (sample_persisted ''extracted_audio.mp3'' ''VIDEO'')) = Inr ()
   \<and> calls (snd (try_body (Some writing_ffmpeg) ''/tmp/ws'' ''extracted_audio.mp3'' ''mp3''
          (sample_persisted ''extracted_audio.mp3'' ''VIDEO''))) ! Suc 0 =
       [''ffmpeg'', ''-y'', ''-i'', ''/tmp/ws/temp_audio.wav'', ''-acodec'', ''libmp3lame'',
        ''-q:a'', ''2'', ''/tmp/ws/extracted_audio.mp3'']
   \<and> fs (snd (try_body (Some writing_ffmpeg) ''/tmp/ws'' ''extracted_audio.mp3'' ''mp3''
          (sample_persisted ''extracted_audio.mp3'' ''VIDEO'')))
         [''tmp'', ''ws'', ''extracted_audio.mp3''] = Some (File ''ID3'')"
proof -
  let ?w = "sample_persisted ''extracted_audio.mp3'' ''VIDEO''"
  have h: "fst (extract_audio_ffmpeg (Some writing_ffmpeg)
          (temp_video_path ''/tmp/ws'' ''extracted_audio.mp3'') (temp_audio_wav ''/tmp/ws'') ?w)
          = Inr ()"
    by (simp add: model_defs)
  have p: "temp_video_path ''/tmp/ws'' ''temp_audio.wav'' = ''/tmp/ws/temp_audio.wav''"
     "temp_video_path ''/tmp/ws'' ''extracted_audio.mp3'' = ''/tmp/ws/extracted_audio.mp3''"
    by (simp_all add: model_defs)
  have clobbered: "fs (snd (try_body (Some writing_ffmpeg) ''/tmp/ws'' ''extracted_audio.mp3''
        ''mp3'' ?w)) [''tmp'', ''ws'', ''extracted_audio.mp3''] = Some (File ''ID3'')"
    by (simp add: model_defs)
  have c: "calls ?w = []"
    and v: "fs ?w [''tmp'', ''ws'', ''extracted_audio.mp3''] = Some (File ''VIDEO'')"
    by (simp_all add: sample_persisted_def sample_world_def)
  from source_path_may_equal_artifact_path [of "''/tmp/ws''" "Some writing_ffmpeg" "''mp3''"
      ?w ?w] h p clobbered v
  show ?thesis
    by (simp add: c)
qed

subsection \<open>The entry point, step by step\<close>

lemma cleanup_fields [simp]:
  "calls (cleanup d w) = calls w" "errors (cleanup d w) = errors w"
  "fs (cleanup d w) = rmtree d (fs w)"
  by (simp_all add: cleanup_def)

lemma efd_persisted:
  assumes "mkdtemp td w = Inr (d, w0)"
    and "open_write (temp_video_path td fn) vb w0 = Inr w1"
  shows "extract_audio_for_download tk td vb fn fmt w =
     (case try_body tk td fn fmt w1 of
        (Inr audio_bytes, w2) \<Rightarrow> (Inr (Some audio_bytes), cleanup d w2)
      | (Inl e, w2) \<Rightarrow> (Inr None, cleanup d w2))"
  using assms by (simp add: extract_audio_for_download_def)

lemma efd_not_persisted:
  assumes "mkdtemp td w = Inr (d, w0)"
    and "open_write (temp_video_path td fn) vb w0 = Inl e"
  shows "extract_audio_for_download tk td vb fn fmt w = (Inl e, cleanup d w0)"
  using assms by (simp add: extract_audio_for_download_def)

lemma mkdtemp_fields:
  assumes "mkdtemp td w = Inr (d, w0)"
  shows "calls w0 = calls w" "errors w0 = errors w" "fs w0 = (fs w)(d \<mapsto> Dir)"
    "resolve (fs w) td = Inr d" "fs w d = None" "d \<noteq> []" "fs w (butlast d) = Some Dir"
  using assms
  by (auto simp: mkdtemp_def split: sum.splits option.splits if_splits)

lemma open_write_fields:
  assumes "open_write p data w = Inr w1"
  shows "calls w1 = calls w" "errors w1 = errors w"
  using assms
  by (auto simp: open_write_def split: sum.splits option.splits node.splits if_splits)

lemma efd_calls:
  assumes "mkdtemp td w = Inr (d, w0)"
    and "open_write (temp_video_path td fn) vb w0 = Inr w1"
  shows "calls (snd (extract_audio_for_download tk td vb fn fmt w)) =
           calls (snd (try_body tk td fn fmt w1))"
  unfolding efd_persisted [OF assms]
  by (simp split: prod.splits sum.splits)

lemma efd_result:
  assumes "mkdtemp td w = Inr (d, w0)"
    and "open_write (temp_video_path td fn) vb w0 = Inr w1"
  shows "fst (extract_audio_for_download tk td vb fn fmt w) =
           (case fst (try_body tk td fn fmt w1) of
              Inl e \<Rightarrow> Inr None
            | Inr audio_bytes \<Rightarrow> Inr (Some audio_bytes))"
  unfolding efd_persisted [OF assms]
  by (simp split: prod.splits sum.splits)

lemma try_body_extraction_fails:
  assumes "fst (extract_audio_ffmpeg tk (temp_video_path td fn) (temp_audio_wav td) w) = Inl e"
  shows "fst (try_body tk td fn fmt w) = Inl e"
  using assms unfolding try_body_def
  by (auto split: prod.splits sum.splits)

lemma try_body_encoding_fails:
  assumes "fst (extract_audio_ffmpeg tk (temp_video_path td fn) (temp_audio_wav td) w) = Inr ()"
    and "fst (convert_to_mp3_ffmpeg tk (temp_audio_wav td) (final_audio_path td ''mp3'')
           (snd (extract_audio_ffmpeg tk (temp_video_path td fn) (temp_audio_wav td) w))) = Inl e"
  shows "fst (try_body tk td fn ''mp3'' w) = Inl e"
  using assms unfolding try_body_def
  by (auto split: prod.splits sum.splits)

lemma try_body_mp3_read:
  assumes "fst (extract_audio_ffmpeg tk (temp_video_path td fn) (temp_audio_wav td) w) = Inr ()"
    and "fst (convert_to_mp3_ffmpeg tk (temp_audio_wav td) (final_audio_path td ''mp3'')
           (snd (extract_audio_ffmpeg tk (temp_video_path td fn) (temp_audio_wav td) w))) = Inr ()"
  shows "fst (try_body tk td fn ''mp3'' w) =
           open_read (final_audio_path td ''mp3'')
             (snd (convert_to_mp3_ffmpeg tk (temp_audio_wav td) (final_audio_path td ''mp3'')
               (snd (extract_audio_ffmpeg tk (temp_video_path td fn) (temp_audio_wav td) w))))"
  using assms unfolding try_body_def
  by (auto split: prod.splits sum.splits)

lemma try_body_wav_read:
  assumes "fst (extract_audio_ffmpeg tk (temp_video_path td fn) (temp_audio_wav td) w) = Inr ()"
    and "fmt \<noteq> ''mp3''"
  shows "fst (try_body tk td fn fmt w) =
           open_read (temp_audio_wav td)
             (snd (extract_audio_ffmpeg tk (temp_video_path td fn) (temp_audio_wav td) w))"
  using assms unfolding try_body_def
  by (auto split: prod.splits sum.splits)

subsection \<open>The lossless target format\<close>

text \<open>
  Claim C7. For the target format \<^verbatim>\<open>wav\<close> there is no encoding stage. Once the source
  is persisted, the run makes exactly one call of the toolkit, the extraction, and what
  it returns is read from the intermediate WAV file itself: the bytes of that file when
  the extraction succeeded and the file can be read, \<^verbatim>\<open>None\<close> otherwise.
\<close>

theorem wav_needs_no_encoding:
  assumes "mkdtemp temp_dir w = Inr (d, w0)"
    and "open_write (temp_video_path temp_dir original_filename) video_bytes w0 = Inr w1"
  shows "calls (snd (extract_audio_for_download tk temp_dir video_bytes original_filename
                  ''wav'' w)) =
           calls w @
           [[''ffmpeg'', ''-y'', ''-i'', temp_video_path temp_dir original_filename, ''-vn'',
             ''-acodec'', ''pcm_s16le'', temp_audio_wav temp_dir]]
       \<and> fst (extract_audio_for_download tk temp_dir video_bytes original_filename ''wav'' w) =
           (case fst (extract_audio_ffmpeg tk (temp_video_path temp_dir original_filename)
                        (temp_audio_wav temp_dir) w1) of
              Inl e \<Rightarrow> Inr None
            | Inr u \<Rightarrow>
                (case open_read (temp_audio_wav temp_dir)
                        (snd (extract_audio_ffmpeg tk
                               (temp_video_path temp_dir original_filename)
                               (temp_audio_wav temp_dir) w1)) of
                   Inl e \<Rightarrow> Inr None
                 | Inr wav_bytes \<Rightarrow> Inr (Some wav_bytes)))"
proof -
  let ?x = "extract_audio_ffmpeg tk (temp_video_path temp_dir original_filename)
              (temp_audio_wav temp_dir) w1"
  have c: "calls w1 = calls w"
    using mkdtemp_fields(1) [OF assms(1)] open_write_fields(1) [OF assms(2)] by simp
  have first: "calls (snd (extract_audio_for_download tk temp_dir video_bytes original_filename
                  ''wav'' w)) =
           calls w @
           [[''ffmpeg'', ''-y'', ''-i'', temp_video_path temp_dir original_filename, ''-vn'',
             ''-acodec'', ''pcm_s16le'', temp_audio_wav temp_dir]]"
    unfolding efd_calls [OF assms] try_body_calls
    by (simp add: c split: sum.splits)
  have second: "fst (extract_audio_for_download tk temp_dir video_bytes original_filename
                  ''wav'' w) =
           (case fst ?x of
              Inl e \<Rightarrow> Inr None
            | Inr u \<Rightarrow>
                (case open_read (temp_audio_wav temp_dir) (snd ?x) of
                   Inl e \<Rightarrow> Inr None
                 | Inr wav_bytes \<Rightarrow> Inr (Some wav_bytes)))"
  proof (cases "fst ?x")
    case (Inl e)
    then show ?thesis
      unfolding efd_result [OF assms] by (simp add: try_body_extraction_fails)
  next
    case (Inr u)
    then have "fst ?x = Inr ()" by simp
    then show ?thesis
      unfolding efd_result [OF assms] by (simp add: try_body_wav_read)
  qed
  from first second show ?thesis by blast
qed

theorem wav_needs_no_encoding_witness:
  "mkdtemp ''/tmp/ws'' sample_world = Inr ([''tmp'', ''ws''], sample_workspace)
   \<and> open_write (temp_video_path ''/tmp/ws'' ''clip.mp4'') ''VIDEO'' sample_workspace =
       Inr (sample_persisted ''clip.mp4'' ''VIDEO'')
   \<and> calls (snd (extract_audio_for_download (Some writing_ffmpeg) ''/tmp/ws'' ''VIDEO''
                   ''clip.mp4'' ''wav'' sample_world)) =
       [[''ffmpeg'', ''-y'', ''-i'', ''/tmp/ws/clip.mp4'', ''-vn'', ''-acodec'', ''pcm_s16le'',
         ''/tmp/ws/temp_audio.wav'']]
   \<and> open_read (temp_audio_wav ''/tmp/ws'')
         (snd (extract_audio_ffmpeg (Some writing_ffmpeg)
                 (temp_video_path ''/tmp/ws'' ''clip.mp4'') (temp_audio_wav ''/tmp/ws'')
                 (sample_persisted ''clip.mp4'' ''VIDEO''))) = Inr ''RIFF''
   \<and> fst (extract_audio_for_download (Some writing_ffmpeg) ''/tmp/ws'' ''VIDEO''
            ''clip.mp4'' ''wav'' sample_world) = Inr (Some ''RIFF'')"
proof -
  have m: "mkdtemp ''/tmp/ws'' sample_world = Inr ([''tmp'', ''ws''], sample_workspace)"
    by (simp add: model_defs)
  have p: "open_write (temp_video_path ''/tmp/ws'' ''clip.mp4'') ''VIDEO'' sample_workspace =
       Inr (sample_persisted ''clip.mp4'' ''VIDEO'')"
    by (simp add: model_defs)
  have x: "fst (extract_audio_ffmpeg (Some writing_ffmpeg)
                 (temp_video_path ''/tmp/ws'' ''clip.mp4'') (temp_audio_wav ''/tmp/ws'')
                 (sample_persisted ''clip.mp4'' ''VIDEO'')) = Inr ()"
    by (simp add: model_defs)
  have r: "open_read (temp_audio_wav ''/tmp/ws'')
         (snd (extract_audio_ffmpeg (Some writing_ffmpeg)
                 (temp_video_path ''/tmp/ws'' ''clip.mp4'') (temp_audio_wav ''/tmp/ws'')
                 (sample_persisted ''clip.mp4'' ''VIDEO''))) = Inr ''RIFF''"
    by (simp add: model_defs)
  have n: "temp_video_path ''/tmp/ws'' ''clip.mp4'' = ''/tmp/ws/clip.mp4''"
    "temp_audio_wav ''/tmp/ws'' = ''/tmp/ws/temp_audio.wav''"
    "calls sample_world = []"
    by (simp_all add: model_defs)
  note th = wav_needs_no_encoding [OF m p, of "Some writing_ffmpeg"]
  have res: "fst (extract_audio_for_download (Some writing_ffmpeg) ''/tmp/ws'' ''VIDEO''
            ''clip.mp4'' ''wav'' sample_world) = Inr (Some ''RIFF'')"
    using th x r by simp
  have cs: "calls (snd (extract_audio_for_download (Some writing_ffmpeg) ''/tmp/ws'' ''VIDEO''
                   ''clip.mp4'' ''wav'' sample_world)) =
       [[''ffmpeg'', ''-y'', ''-i'', ''/tmp/ws/clip.mp4'', ''-vn'', ''-acodec'', ''pcm_s16le'',
         ''/tmp/ws/temp_audio.wav'']]"
    using th n by simp
  from m p r res cs show ?thesis by blast
qed

subsection \<open>Which failures leave the entry point as exceptions\<close>

text \<open>
  Claim C10. The entry point converts only the failures of its \<^verbatim>\<open>try\<close> block. A
  failure before it, making the temporary directory or persisting the source bytes under
  the caller-supplied filename, leaves the entry point as an exception. A failure of the
  extraction, of the encoding or of reading the final artifact is caught, and the entry
  point returns \<^verbatim>\<open>None\<close>.
\<close>

theorem only_later_failures_are_converted:
  "(mkdtemp temp_dir w = Inl e0 \<longrightarrow>
      fst (extract_audio_for_download tk temp_dir video_bytes original_filename output_format w)
        = Inl e0)
   \<and> (mkdtemp temp_dir w = Inr (d, w0) \<longrightarrow>
        open_write (temp_video_path temp_dir original_filename) video_bytes w0 = Inl e1 \<longrightarrow>
      fst (extract_audio_for_download tk temp_dir video_bytes original_filename output_format w)
        = Inl e1)
   \<and> (mkdtemp temp_dir w = Inr (d, w0) \<longrightarrow>
        open_write (temp_video_path temp_dir original_filename) video_bytes w0 = Inr w1 \<longrightarrow>
        fst (extract_audio_ffmpeg tk (temp_video_path temp_dir original_filename)
               (temp_audio_wav temp_dir) w1) = Inl e2 \<longrightarrow>
      fst (extract_audio_for_download tk temp_dir video_bytes original_filename output_format w)
        = Inr None)
   \<and> (mkdtemp temp_dir w = Inr (d, w0) \<longrightarrow>
        open_write (temp_video_path temp_dir original_filename) video_bytes w0 = Inr w1 \<longrightarrow>
        extract_audio_ffmpeg tk (temp_video_path temp_dir original_filename)
          (temp_audio_wav temp_dir) w1 = (Inr (), w2) \<longrightarrow>
        fst (convert_to_mp3_ffmpeg tk (temp_audio_wav temp_dir)
               (final_audio_path temp_dir ''mp3'') w2) = Inl e3 \<longrightarrow>
      fst (extract_audio_for_download tk temp_dir video_bytes original_filename ''mp3'' w)
        = Inr None)
   \<and> (mkdtemp temp_dir w = Inr (d, w0) \<longrightarrow>
        open_write (temp_video_path temp_dir original_filename) video_bytes w0 = Inr w1 \<longrightarrow>
        extract_audio_ffmpeg tk (temp_video_path temp_dir original_filename)
          (temp_audio_wav temp_dir) w1 = (Inr (), w2) \<longrightarrow>
        convert_to_mp3_ffmpeg tk (temp_audio_wav temp_dir)
          (final_audio_path temp_dir ''mp3'') w2 = (Inr (), w3) \<longrightarrow>
        open_read (final_audio_path temp_dir ''mp3'') w3 = Inl e4 \<longrightarrow>
      fst (extract_audio_for_download tk temp_dir video_bytes original_filename ''mp3'' w)
        = Inr None)
   \<and> (mkdtemp temp_dir w = Inr (d, w0) \<longrightarrow>
        open_write (temp_video_path temp_dir original_filename) video_bytes w0 = Inr w1 \<longrightarrow>
        extract_audio_ffmpeg tk (temp_video_path temp_dir original_filename)
          (temp_audio_wav temp_dir) w1 = (Inr (), w2) \<longrightarrow>
        output_format \<noteq> ''mp3'' \<longrightarrow>
        open_read (temp_audio_wav temp_dir) w2 = Inl e4 \<longrightarrow>
      fst (extract_audio_for_download tk temp_dir video_bytes original_filename output_format w)
        = Inr None)"
  (is "?A \<and> ?B \<and> ?C \<and> ?D \<and> ?E \<and> ?F")
proof -
  have a: ?A
    by (simp add: extract_audio_for_download_def)
  have b: ?B
    by (simp add: efd_not_persisted)
  have c: ?C
    by (simp add: efd_result try_body_extraction_fails)
  have d: ?D
    by (simp add: efd_result try_body_encoding_fails)
  have e: ?E
    by (simp add: efd_result try_body_mp3_read)
  have f: ?F
    by (simp add: efd_result try_body_wav_read)
  from a b c d e f show ?thesis by blast
qed

theorem only_later_failures_are_converted_witness:
  "mkdtemp ''/nowhere/ws'' sample_world = Inl FileNotFoundError
   \<and> fst (extract_audio_for_download (Some writing_ffmpeg) ''/nowhere/ws'' ''VIDEO''
          ''clip.mp4'' ''mp3'' sample_world) = Inl FileNotFoundError
   \<and> mkdtemp ''/tmp/ws'' sample_world = Inr ([''tmp'', ''ws''], sample_workspace)
   \<and> open_write (temp_video_path ''/tmp/ws'' []) ''VIDEO'' sample_workspace =
       Inl IsADirectoryError
   \<and> fst (extract_audio_for_download (Some writing_ffmpeg) ''/tmp/ws'' ''VIDEO''
          [] ''mp3'' sample_world) = Inl IsADirectoryError
   \<and> open_write (temp_video_path ''/tmp/ws'' ''clip.mp4'') ''VIDEO'' sample_workspace =
       Inr (sample_persisted ''clip.mp4'' ''VIDEO'')
   \<and> fst (extract_audio_ffmpeg (Some (failing_ffmpeg ''Invalid data found''))
          (temp_video_path ''/tmp/ws'' ''clip.mp4'') (temp_audio_wav ''/tmp/ws'')
          (sample_persisted ''clip.mp4'' ''VIDEO'')) =
       Inl (CalledProcessError 1 ''Invalid data found'')
   \<and> fst (extract_audio_for_download (Some (failing_ffmpeg ''Invalid data found''))
          ''/tmp/ws'' ''VIDEO'' ''clip.mp4'' ''mp3'' sample_world) = Inr None
   \<and> extract_audio_ffmpeg (Some wav_only_ffmpeg)
          (temp_video_path ''/tmp/ws'' ''clip.mp4'') (temp_audio_wav ''/tmp/ws'')
          (sample_persisted ''clip.mp4'' ''VIDEO'') =
       (Inr (),
        \<lparr>fs = sample_fs([''tmp'', ''ws''] \<mapsto> Dir,
                [''tmp'', ''ws'', ''clip.mp4''] \<mapsto> File ''VIDEO'',
                [''tmp'', ''ws'', ''temp_audio.wav''] \<mapsto> File ''RIFF''),
         calls = [[''ffmpeg'', ''-y'', ''-i'', ''/tmp/ws/clip.mp4'', ''-vn'', ''-acodec'',
                   ''pcm_s16le'', ''/tmp/ws/temp_audio.wav'']],
         errors = []\<rparr>)
   \<and> fst (convert_to_mp3_ffmpeg (Some wav_only_ffmpeg) (temp_audio_wav ''/tmp/ws'')
          (final_audio_path ''/tmp/ws'' ''mp3'')
          \<lparr>fs = sample_fs([''tmp'', ''ws''] \<mapsto> Dir,
                [''tmp'', ''ws'', ''clip.mp4''] \<mapsto> File ''VIDEO'',
                [''tmp'', ''ws'', ''temp_audio.wav''] \<mapsto> File ''RIFF''),
            calls = [[''ffmpeg'', ''-y'', ''-i'', ''/tmp/ws/clip.mp4'', ''-vn'', ''-acodec'',
                   ''pcm_s16le'', ''/tmp/ws/temp_audio.wav'']],
            errors = []\<rparr>) =
       Inl (CalledProcessError 1 ''Unknown encoder libmp3lame'')
   \<and> fst (extract_audio_for_download (Some wav_only_ffmpeg)
          ''/tmp/ws'' ''VIDEO'' ''clip.mp4'' ''mp3'' sample_world) = Inr None
   \<and> extract_audio_ffmpeg (Some idle_ffmpeg)
          (temp_video_path ''/tmp/ws'' ''clip.mp4'') (temp_audio_wav ''/tmp/ws'')
          (sample_persisted ''clip.mp4'' ''VIDEO'') =
       (Inr (),
        (sample_persisted ''clip.mp4'' ''VIDEO'')
          \<lparr>calls := [[''ffmpeg'', ''-y'', ''-i'', ''/tmp/ws/clip.mp4'', ''-vn'', ''-acodec'',
                   ''pcm_s16le'', ''/tmp/ws/temp_audio.wav'']]\<rparr>)
   \<and> convert_to_mp3_ffmpeg (Some idle_ffmpeg) (temp_audio_wav ''/tmp/ws'')
          (final_audio_path ''/tmp/ws'' ''mp3'')
          ((sample_persisted ''clip.mp4'' ''VIDEO'')
          \<lparr>calls := [[''ffmpeg'', ''-y'', ''-i'', ''/tmp/ws/clip.mp4'', ''-vn'', ''-acodec'',
                   ''pcm_s16le'', ''/tmp/ws/temp_audio.wav'']]\<rparr>) =
       (Inr (),
        (sample_persisted ''clip.mp4'' ''VIDEO'')
          \<lparr>calls := [[''ffmpeg'', ''-y'', ''-i'', ''/tmp/ws/clip.mp4'', ''-vn'', ''-acodec'',
                   ''pcm_s16le'', ''/tmp/ws/temp_audio.wav''],
                  [''ffmpeg'', ''-y'', ''-i'', ''/tmp/ws/temp_audio.wav'', ''-acodec'',
                   ''libmp3lame'', ''-q:a'', ''2'', ''/tmp/ws/extracted_audio.mp3'']]\<rparr>)
   \<and> open_read (final_audio_path ''/tmp/ws'' ''mp3'')
         ((sample_persisted ''clip.mp4'' ''VIDEO'')
          \<lparr>calls := [[''ffmpeg'', ''-y'', ''-i'', ''/tmp/ws/clip.mp4'', ''-vn'', ''-acodec'',
                   ''pcm_s16le'', ''/tmp/ws/temp_audio.wav''],
                  [''ffmpeg'', ''-y'', ''-i'', ''/tmp/ws/temp_audio.wav'', ''-acodec'',
                   ''libmp3lame'', ''-q:a'', ''2'', ''/tmp/ws/extracted_audio.mp3'']]\<rparr>) =
       Inl FileNotFoundError
   \<and> fst (extract_audio_for_download (Some idle_ffmpeg)
          ''/tmp/ws'' ''VIDEO'' ''clip.mp4'' ''mp3'' sample_world) = Inr None
   \<and> ''wav'' \<noteq> ''mp3''
   \<and> open_read (temp_audio_wav ''/tmp/ws'')
         ((sample_persisted ''clip.mp4'' ''VIDEO'')
          \<lparr>calls := [[''ffmpeg'', ''-y'', ''-i'', ''/tmp/ws/clip.mp4'', ''-vn'', ''-acodec'',
                   ''pcm_s16le'', ''/tmp/ws/temp_audio.wav'']]\<rparr>) =
       Inl FileNotFoundError
   \<and> fst (extract_audio_for_download (Some idle_ffmpeg)
          ''/tmp/ws'' ''VIDEO'' ''clip.mp4'' ''wav'' sample_world) = Inr None"
proof -
  let ?p = "sample_persisted ''clip.mp4'' ''VIDEO''"
  let ?c1 = "[''ffmpeg'', ''-y'', ''-i'', ''/tmp/ws/clip.mp4'', ''-vn'', ''-acodec'',
                   ''pcm_s16le'', ''/tmp/ws/temp_audio.wav'']"
  let ?c2 = "[''ffmpeg'', ''-y'', ''-i'', ''/tmp/ws/temp_audio.wav'', ''-acodec'',
                   ''libmp3lame'', ''-q:a'', ''2'', ''/tmp/ws/extracted_audio.mp3'']"
  let ?wx = "\<lparr>fs = sample_fs([''tmp'', ''ws''] \<mapsto> Dir,
                [''tmp'', ''ws'', ''clip.mp4''] \<mapsto> File ''VIDEO'',
                [''tmp'', ''ws'', ''temp_audio.wav''] \<mapsto> File ''RIFF''),
         calls = [?c1], errors = []\<rparr>"
  have m0: "mkdtemp ''/nowhere/ws'' sample_world = Inl FileNotFoundError"
    by (simp add: model_defs)
  have m: "mkdtemp ''/tmp/ws'' sample_world = Inr ([''tmp'', ''ws''], sample_workspace)"
    by (simp add: model_defs)
  have p0: "open_write (temp_video_path ''/tmp/ws'' []) ''VIDEO'' sample_workspace =
       Inl IsADirectoryError"
    by (simp add: model_defs)
  have p: "open_write (temp_video_path ''/tmp/ws'' ''clip.mp4'') ''VIDEO'' sample_workspace =
       Inr ?p"
    by (simp add: model_defs)
  have x1: "fst (extract_audio_ffmpeg (Some (failing_ffmpeg ''Invalid data found''))
          (temp_video_path ''/tmp/ws'' ''clip.mp4'') (temp_audio_wav ''/tmp/ws'') ?p) =
       Inl (CalledProcessError 1 ''Invalid data found'')"
    by (simp add: model_defs)
  have x2: "extract_audio_ffmpeg (Some wav_only_ffmpeg)
          (temp_video_path ''/tmp/ws'' ''clip.mp4'') (temp_audio_wav ''/tmp/ws'') ?p =
       (Inr (), ?wx)"
    by (simp add: model_defs)
  have y2: "fst (convert_to_mp3_ffmpeg (Some wav_only_ffmpeg) (temp_audio_wav ''/tmp/ws'')
          (final_audio_path ''/tmp/ws'' ''mp3'') ?wx) =
       Inl (CalledProcessError 1 ''Unknown encoder libmp3lame'')"
    by (simp add: model_defs)
  have x3: "extract_audio_ffmpeg (Some idle_ffmpeg)
          (temp_video_path ''/tmp/ws'' ''clip.mp4'') (temp_audio_wav ''/tmp/ws'') ?p =
       (Inr (), ?p\<lparr>calls := [?c1]\<rparr>)"
    by (simp add: model_defs)
  have y3: "convert_to_mp3_ffmpeg (Some idle_ffmpeg) (temp_audio_wav ''/tmp/ws'')
          (final_audio_path ''/tmp/ws'' ''mp3'') (?p\<lparr>calls := [?c1]\<rparr>) =
       (Inr (), ?p\<lparr>calls := [?c1, ?c2]\<rparr>)"
    by (simp add: model_defs)
  have r3: "open_read (final_audio_path ''/tmp/ws'' ''mp3'') (?p\<lparr>calls := [?c1, ?c2]\<rparr>) =
       Inl FileNotFoundError"
    by (simp add: model_defs)
  have n: "''wav'' \<noteq> ''mp3''"
    by simp
  have r4: "open_read (temp_audio_wav ''/tmp/ws'') (?p\<lparr>calls := [?c1]\<rparr>) =
       Inl FileNotFoundError"
    by (simp add: model_defs)
  note th = only_later_failures_are_converted
  have a: "fst (extract_audio_for_download (Some writing_ffmpeg) ''/nowhere/ws'' ''VIDEO''
          ''clip.mp4'' ''mp3'' sample_world) = Inl FileNotFoundError"
    using th [where temp_dir = "''/nowhere/ws''" and w = sample_world
        and ?e0.0 = FileNotFoundError and tk = "Some writing_ffmpeg"
        and video_bytes = "''VIDEO''" and original_filename = "''clip.mp4''"
        and output_format = "''mp3''"] m0
    by blast
  have b: "fst (extract_audio_for_download (Some writing_ffmpeg) ''/tmp/ws'' ''VIDEO''
          [] ''mp3'' sample_world) = Inl IsADirectoryError"
    using th [where temp_dir = "''/tmp/ws''" and w = sample_world
        and d = "[''tmp'', ''ws'']" and ?w0.0 = sample_workspace
        and ?e1.0 = IsADirectoryError and tk = "Some writing_ffmpeg"
        and video_bytes = "''VIDEO''" and original_filename = "[]"
        and output_format = "''mp3''"] m p0
    by blast
  have c: "fst (extract_audio_for_download (Some (failing_ffmpeg ''Invalid data found''))
          ''/tmp/ws'' ''VIDEO'' ''clip.mp4'' ''mp3'' sample_world) = Inr None"
    using th [where temp_dir = "''/tmp/ws''" and w = sample_world
        and d = "[''tmp'', ''ws'']" and ?w0.0 = sample_workspace and ?w1.0 = ?p
        and ?e2.0 = "CalledProcessError 1 ''Invalid data found''"
        and tk = "Some (failing_ffmpeg ''Invalid data found'')"
        and video_bytes = "''VIDEO''" and original_filename = "''clip.mp4''"
        and output_format = "''mp3''"] m p x1
    by blast
  have d: "fst (extract_audio_for_download (Some wav_only_ffmpeg)
          ''/tmp/ws'' ''VIDEO'' ''clip.mp4'' ''mp3'' sample_world) = Inr None"
    using th [where temp_dir = "''/tmp/ws''" and w = sample_world
        and d = "[''tmp'', ''ws'']" and ?w0.0 = sample_workspace and ?w1.0 = ?p
        and ?w2.0 = ?wx
        and ?e3.0 = "CalledProcessError 1 ''Unknown encoder libmp3lame''"
        and tk = "Some wav_only_ffmpeg"
        and video_bytes = "''VIDEO''" and original_filename = "''clip.mp4''"] m p x2 y2
    by blast
  have e: "fst (extract_audio_for_download (Some idle_ffmpeg)
          ''/tmp/ws'' ''VIDEO'' ''clip.mp4'' ''mp3'' sample_world) = Inr None"
    using th [where temp_dir = "''/tmp/ws''" and w = sample_world
        and d = "[''tmp'', ''ws'']" and ?w0.0 = sample_workspace and ?w1.0 = ?p
        and ?w2.0 = "?p\<lparr>calls := [?c1]\<rparr>" and ?w3.0 = "?p\<lparr>calls := [?c1, ?c2]\<rparr>"
        and ?e4.0 = FileNotFoundError
        and tk = "Some idle_ffmpeg"
        and video_bytes = "''VIDEO''" and original_filename = "''clip.mp4''"] m p x3 y3 r3
    by blast
  have f: "fst (extract_audio_for_download (Some idle_ffmpeg)
          ''/tmp/ws'' ''VIDEO'' ''clip.mp4'' ''wav'' sample_world) = Inr None"
    using th [where temp_dir = "''/tmp/ws''" and w = sample_world
        and d = "[''tmp'', ''ws'']" and ?w0.0 = sample_workspace and ?w1.0 = ?p
        and ?w2.0 = "?p\<lparr>calls := [?c1]\<rparr>"
        and ?e4.0 = FileNotFoundError
        and tk = "Some idle_ffmpeg" and output_format = "''wav''"
        and video_bytes = "''VIDEO''" and original_filename = "''clip.mp4''"] m p x3 n r4
    by blast
  from m0 a m p0 b p x1 c x2 y2 d x3 y3 r3 e n r4 f show ?thesis
    by blast
qed

subsection \<open>What a failing utility returns and displays\<close>

lemma resolve_no_nul:
  assumes "resolve f p = Inr q"
  shows "CHR 0x00 \<notin> set p"
  using assms by (auto simp: resolve_def split: if_splits)

lemma path_join_no_nul:
  assumes "CHR 0x00 \<notin> set a" and "CHR 0x00 \<notin> set b"
  shows "CHR 0x00 \<notin> set (path_join a b)"
  using assms by (auto simp: path_join_def)

lemma mkdtemp_no_nul:
  assumes "mkdtemp td w = Inr (d, w0)"
  shows "CHR 0x00 \<notin> set td"
  using mkdtemp_fields(4) [OF assms] by (rule resolve_no_nul)

lemma open_write_no_nul:
  assumes "open_write p data w = Inr w1"
  shows "CHR 0x00 \<notin> set p"
  using assms by (auto simp: open_write_def resolve_def split: if_splits sum.splits)

lemma extract_audio_ffmpeg_not_found:
  assumes "CHR 0x00 \<notin> set v" and "CHR 0x00 \<notin> set out"
  shows "extract_audio_ffmpeg None v out w =
     (Inl FileNotFoundError,
      w\<lparr>calls := calls w @
           [[''ffmpeg'', ''-y'', ''-i'', v, ''-vn'', ''-acodec'', ''pcm_s16le'', out]],
        errors := errors w @
           [''FFmpeg not found. Please ensure it is installed and in your system PATH.'']\<rparr>)"
  using assms
  by (simp add: extract_audio_ffmpeg_def subprocess_run_def st_error_def)

lemma extract_audio_ffmpeg_failed:
  assumes "CHR 0x00 \<notin> set v" and "CHR 0x00 \<notin> set out"
    and "prog [''-y'', ''-i'', v, ''-vn'', ''-acodec'', ''pcm_s16le'', out] (fs w) = (rc, err, f')"
    and "rc \<noteq> 0"
  shows "extract_audio_ffmpeg (Some prog) v out w =
     (case decode err of
        Inl e \<Rightarrow>
          (Inl e,
           w\<lparr>calls := calls w @
                [[''ffmpeg'', ''-y'', ''-i'', v, ''-vn'', ''-acodec'', ''pcm_s16le'', out]],
             fs := f'\<rparr>)
      | Inr txt \<Rightarrow>
          (Inl (CalledProcessError rc err),
           w\<lparr>calls := calls w @
                [[''ffmpeg'', ''-y'', ''-i'', v, ''-vn'', ''-acodec'', ''pcm_s16le'', out]],
             fs := f',
             errors := errors w @ [''FFmpeg extraction failed! Output: '' @ txt]\<rparr>))"
  using assms
  by (simp add: extract_audio_ffmpeg_def subprocess_run_def st_error_def split: sum.splits)

lemma convert_to_mp3_ffmpeg_failed:
  assumes "CHR 0x00 \<notin> set inp" and "CHR 0x00 \<notin> set out"
    and "prog [''-y'', ''-i'', inp, ''-acodec'', ''libmp3lame'', ''-q:a'', ''2'', out] (fs w) =
           (rc, err, f')"
    and "rc \<noteq> 0"
  shows "convert_to_mp3_ffmpeg (Some prog) inp out w =
     (case decode err of
        Inl e \<Rightarrow>
          (Inl e,
           w\<lparr>calls := calls w @
                [[''ffmpeg'', ''-y'', ''-i'', inp, ''-acodec'', ''libmp3lame'', ''-q:a'', ''2'',
                  out]],
             fs := f'\<rparr>)
      | Inr txt \<Rightarrow>
          (Inl (CalledProcessError rc err),
           w\<lparr>calls := calls w @
                [[''ffmpeg'', ''-y'', ''-i'', inp, ''-acodec'', ''libmp3lame'', ''-q:a'', ''2'',
                  out]],
             fs := f',
             errors := errors w @ [''FFmpeg MP3 conversion failed! Output: '' @ txt]\<rparr>))"
  using assms
  by (simp add: convert_to_mp3_ffmpeg_def subprocess_run_def st_error_def split: sum.splits)

lemma convert_to_mp3_ffmpeg_not_found:
  assumes "CHR 0x00 \<notin> set inp" and "CHR 0x00 \<notin> set out"
  shows "convert_to_mp3_ffmpeg None inp out w =
     (Inl FileNotFoundError,
      w\<lparr>calls := calls w @
           [[''ffmpeg'', ''-y'', ''-i'', inp, ''-acodec'', ''libmp3lame'', ''-q:a'', ''2'',
             out]]\<rparr>)"
  using assms
  by (simp add: convert_to_mp3_ffmpeg_def subprocess_run_def st_error_def)

lemma try_body_stops_at_extraction:
  assumes "extract_audio_ffmpeg tk (temp_video_path td fn) (temp_audio_wav td) w = (Inl e, w2)"
  shows "try_body tk td fn fmt w = (Inl e, w2)"
  using assms by (simp add: try_body_def)

lemma try_body_stops_at_encoding:
  assumes "extract_audio_ffmpeg tk (temp_video_path td fn) (temp_audio_wav td) w = (Inr (), w2)"
    and "convert_to_mp3_ffmpeg tk (temp_audio_wav td) (final_audio_path td ''mp3'') w2 =
           (Inl e, w3)"
  shows "try_body tk td fn ''mp3'' w = (Inl e, w3)"
  using assms by (simp add: try_body_def)

lemma temp_paths_no_nul:
  assumes "mkdtemp td w = Inr (d, w0)"
  shows "CHR 0x00 \<notin> set (temp_audio_wav td)"
    "CHR 0x00 \<notin> set (final_audio_path td ''mp3'')"
  using mkdtemp_no_nul [OF assms]
  by (simp_all add: temp_audio_wav_def final_audio_path_def path_join_no_nul)


lemma extract_audio_ffmpeg_ok_errors:
  assumes "extract_audio_ffmpeg tk v out w = (Inr u, w2)"
  shows "errors w2 = errors w"
proof -
  let ?argv = "[''ffmpeg'', ''-y'', ''-i'', v, ''-vn'', ''-acodec'', ''pcm_s16le'', out]"
  obtain r w1 where run: "subprocess_run tk ?argv w = (r, w1)"
    by (cases "subprocess_run tk ?argv w")
  have e: "errors w1 = errors w"
    using subprocess_run_errors [of tk ?argv w] run by simp
  from assms e show ?thesis
    unfolding extract_audio_ffmpeg_def run
    by (auto split: sum.splits exn.splits)
qed

lemma convert_to_mp3_ffmpeg_ok_errors:
  assumes "convert_to_mp3_ffmpeg tk inp out w = (Inr u, w2)"
  shows "errors w2 = errors w"
proof -
  let ?argv = "[''ffmpeg'', ''-y'', ''-i'', inp, ''-acodec'', ''libmp3lame'', ''-q:a'', ''2'', out]"
  obtain r w1 where run: "subprocess_run tk ?argv w = (r, w1)"
    by (cases "subprocess_run tk ?argv w")
  have e: "errors w1 = errors w"
    using subprocess_run_errors [of tk ?argv w] run by simp
  from assms e show ?thesis
    unfolding convert_to_mp3_ffmpeg_def run
    by (auto split: sum.splits exn.splits)
qed

subsection \<open>How failures reach the caller\<close>

text \<open>
  Claim C1, as amended. The entry point returns bytes or \<^verbatim>\<open>None\<close>, not a classified
  error. Once the source is persisted, every failure of the extraction, of the encoding or
  of reading the final artifact makes it return the one value \<^verbatim>\<open>None\<close>; the class of
  the failure and the diagnostic text are not part of what is returned. They are displayed
  with \<^verbatim>\<open>st.error\<close> by the utility that detects the failure: the fixed message of the
  missing toolkit at the extraction, and the toolkit's own diagnostic text after a nonzero
  exit status of the extraction or of the compression, when that text is well-formed
  UTF-8.
\<close>

theorem failures_return_none_and_are_displayed:
  assumes "mkdtemp temp_dir w = Inr (d, w0)"
    and "open_write (temp_video_path temp_dir original_filename) video_bytes w0 = Inr w1"
  shows
    "(fst (try_body tk temp_dir original_filename output_format w1) = Inl e \<longrightarrow>
        fst (extract_audio_for_download tk temp_dir video_bytes original_filename
               output_format w) = Inr None)
     \<and> (fst (extract_audio_for_download None temp_dir video_bytes original_filename
               output_format w) = Inr None
        \<and> errors (snd (extract_audio_for_download None temp_dir video_bytes original_filename
               output_format w)) =
            errors w @
            [''FFmpeg not found. Please ensure it is installed and in your system PATH.''])
     \<and> (prog [''-y'', ''-i'', temp_video_path temp_dir original_filename, ''-vn'', ''-acodec'',
               ''pcm_s16le'', temp_audio_wav temp_dir] (fs w1) = (rc, err, g) \<longrightarrow>
        rc \<noteq> 0 \<longrightarrow> decode err = Inr diag \<longrightarrow>
          fst (extract_audio_for_download (Some prog) temp_dir video_bytes original_filename
               output_format w) = Inr None
          \<and> errors (snd (extract_audio_for_download (Some prog) temp_dir video_bytes
               original_filename output_format w)) =
              errors w @ [''FFmpeg extraction failed! Output: '' @ diag])
     \<and> (extract_audio_ffmpeg (Some prog) (temp_video_path temp_dir original_filename)
           (temp_audio_wav temp_dir) w1 = (Inr (), w2) \<longrightarrow>
        prog [''-y'', ''-i'', temp_audio_wav temp_dir, ''-acodec'', ''libmp3lame'', ''-q:a'',
              ''2'', final_audio_path temp_dir ''mp3''] (fs w2) = (rc, err, g) \<longrightarrow>
        rc \<noteq> 0 \<longrightarrow> decode err = Inr diag \<longrightarrow>
          fst (extract_audio_for_download (Some prog) temp_dir video_bytes original_filename
               ''mp3'' w) = Inr None
          \<and> errors (snd (extract_audio_for_download (Some prog) temp_dir video_bytes
               original_filename ''mp3'' w)) =
              errors w @ [''FFmpeg MP3 conversion failed! Output: '' @ diag])"
  (is "?A \<and> ?B \<and> ?C \<and> ?E")
proof -
  note unfold = efd_persisted [OF assms]
  have ew: "errors w1 = errors w"
    using mkdtemp_fields(2) [OF assms(1)] open_write_fields(2) [OF assms(2)] by simp
  have nv: "CHR 0x00 \<notin> set (temp_video_path temp_dir original_filename)"
    using assms(2) by (rule open_write_no_nul)
  note nw = temp_paths_no_nul [OF assms(1)]
  have a: ?A
    by (simp add: efd_result [OF assms])
  have b: ?B
    using try_body_stops_at_extraction
      [OF extract_audio_ffmpeg_not_found [OF nv nw(1)], where fmt = output_format and w = w1]
    by (simp add: unfold ew)
  have c: ?C
  proof (intro impI)
    assume p: "prog [''-y'', ''-i'', temp_video_path temp_dir original_filename, ''-vn'',
        ''-acodec'', ''pcm_s16le'', temp_audio_wav temp_dir] (fs w1) = (rc, err, g)"
      and rc: "rc \<noteq> 0" and dec: "decode err = Inr diag"
    from extract_audio_ffmpeg_failed [where prog = prog and w = w1, OF nv nw(1) p rc]
    have "\<exists>w2. extract_audio_ffmpeg (Some prog) (temp_video_path temp_dir original_filename)
        (temp_audio_wav temp_dir) w1 = (Inl (CalledProcessError rc err), w2)
        \<and> errors w2 = errors w1 @ [''FFmpeg extraction failed! Output: '' @ diag]"
      by (simp add: dec)
    then obtain w2 where x: "extract_audio_ffmpeg (Some prog)
        (temp_video_path temp_dir original_filename) (temp_audio_wav temp_dir) w1 =
        (Inl (CalledProcessError rc err), w2)"
      and e2: "errors w2 = errors w1 @ [''FFmpeg extraction failed! Output: '' @ diag]"
      by blast
    show "fst (extract_audio_for_download (Some prog) temp_dir video_bytes original_filename
               output_format w) = Inr None
          \<and> errors (snd (extract_audio_for_download (Some prog) temp_dir video_bytes
               original_filename output_format w)) =
              errors w @ [''FFmpeg extraction failed! Output: '' @ diag]"
      using try_body_stops_at_extraction [OF x, where fmt = output_format]
      by (simp add: unfold e2 ew)
  qed
  have e: ?E
  proof (intro impI)
    assume x: "extract_audio_ffmpeg (Some prog) (temp_video_path temp_dir original_filename)
           (temp_audio_wav temp_dir) w1 = (Inr (), w2)"
      and p: "prog [''-y'', ''-i'', temp_audio_wav temp_dir, ''-acodec'', ''libmp3lame'',
          ''-q:a'', ''2'', final_audio_path temp_dir ''mp3''] (fs w2) = (rc, err, g)"
      and rc: "rc \<noteq> 0" and dec: "decode err = Inr diag"
    have e2: "errors w2 = errors w1"
      using x by (rule extract_audio_ffmpeg_ok_errors)
    from convert_to_mp3_ffmpeg_failed [where prog = prog and w = w2, OF nw(1) nw(2) p rc]
    have "\<exists>w3. convert_to_mp3_ffmpeg (Some prog) (temp_audio_wav temp_dir)
        (final_audio_path temp_dir ''mp3'') w2 = (Inl (CalledProcessError rc err), w3)
        \<and> errors w3 = errors w2 @ [''FFmpeg MP3 conversion failed! Output: '' @ diag]"
      by (simp add: dec)
    then obtain w3 where y: "convert_to_mp3_ffmpeg (Some prog) (temp_audio_wav temp_dir)
        (final_audio_path temp_dir ''mp3'') w2 = (Inl (CalledProcessError rc err), w3)"
      and e3: "errors w3 = errors w2 @ [''FFmpeg MP3 conversion failed! Output: '' @ diag]"
      by blast
    show "fst (extract_audio_for_download (Some prog) temp_dir video_bytes original_filename
               ''mp3'' w) = Inr None
          \<and> errors (snd (extract_audio_for_download (Some prog) temp_dir video_bytes
               original_filename ''mp3'' w)) =
              errors w @ [''FFmpeg MP3 conversion failed! Output: '' @ diag]"
      using try_body_stops_at_encoding [OF x y]
      by (simp add: efd_persisted [OF assms] e3 e2 ew)
  qed
  from a b c e show ?thesis by blast
qed

theorem failures_return_none_and_are_displayed_witness:
  "mkdtemp ''/tmp/ws'' sample_world = Inr ([''tmp'', ''ws''], sample_workspace)
   \<and> open_write (temp_video_path ''/tmp/ws'' ''clip.mp4'') ''VIDEO'' sample_workspace =
       Inr (sample_persisted ''clip.mp4'' ''VIDEO'')
   \<and> fst (try_body (Some idle_ffmpeg) ''/tmp/ws'' ''clip.mp4'' ''mp3''
            (sample_persisted ''clip.mp4'' ''VIDEO'')) = Inl FileNotFoundError
   \<and> fst (extract_audio_for_download (Some idle_ffmpeg) ''/tmp/ws'' ''VIDEO'' ''clip.mp4''
            ''mp3'' sample_world) = Inr None
   \<and> fst (extract_audio_for_download None ''/tmp/ws'' ''VIDEO'' ''clip.mp4'' ''mp3''
            sample_world) = Inr None
   \<and> errors (snd (extract_audio_for_download None ''/tmp/ws'' ''VIDEO'' ''clip.mp4'' ''mp3''
            sample_world)) =
       [''FFmpeg not found. Please ensure it is installed and in your system PATH.'']
   \<and> failing_ffmpeg ''Invalid data found''
         [''-y'', ''-i'', temp_video_path ''/tmp/ws'' ''clip.mp4'', ''-vn'', ''-acodec'',
          ''pcm_s16le'', temp_audio_wav ''/tmp/ws'']
         (fs (sample_persisted ''clip.mp4'' ''VIDEO'')) =
       (1, ''Invalid data found'', fs (sample_persisted ''clip.mp4'' ''VIDEO''))
   \<and> (1::int) \<noteq> 0
   \<and> decode ''Invalid data found'' = Inr ''Invalid data found''
   \<and> fst (extract_audio_for_download (Some (failing_ffmpeg ''Invalid data found''))
            ''/tmp/ws'' ''VIDEO'' ''clip.mp4'' ''mp3'' sample_world) = Inr None
   \<and> errors (snd (extract_audio_for_download (Some (failing_ffmpeg ''Invalid data found''))
            ''/tmp/ws'' ''VIDEO'' ''clip.mp4'' ''mp3'' sample_world)) =
       [''FFmpeg extraction failed! Output: Invalid data found'']
   \<and> extract_audio_ffmpeg (Some wav_only_ffmpeg)
          (temp_video_path ''/tmp/ws'' ''clip.mp4'') (temp_audio_wav ''/tmp/ws'')
          (sample_persisted ''clip.mp4'' ''VIDEO'') =
       (Inr (),
        \<lparr>fs = sample_fs([''tmp'', ''ws''] \<mapsto> Dir,
                [''tmp'', ''ws'', ''clip.mp4''] \<mapsto> File ''VIDEO'',
                [''tmp'', ''ws'', ''temp_audio.wav''] \<mapsto> File ''RIFF''),
         calls = [[''ffmpeg'', ''-y'', ''-i'', ''/tmp/ws/clip.mp4'', ''-vn'', ''-acodec'',
                   ''pcm_s16le'', ''/tmp/ws/temp_audio.wav'']],
         errors = []\<rparr>)
   \<and> wav_only_ffmpeg
         [''-y'', ''-i'', temp_audio_wav ''/tmp/ws'', ''-acodec'', ''libmp3lame'', ''-q:a'',
          ''2'', final_audio_path ''/tmp/ws'' ''mp3'']
         (sample_fs([''tmp'', ''ws''] \<mapsto> Dir,
                [''tmp'', ''ws'', ''clip.mp4''] \<mapsto> File ''VIDEO'',
                [''tmp'', ''ws'', ''temp_audio.wav''] \<mapsto> File ''RIFF'')) =
       (1, ''Unknown encoder libmp3lame'',
        sample_fs([''tmp'', ''ws''] \<mapsto> Dir,
                [''tmp'', ''ws'', ''clip.mp4''] \<mapsto> File ''VIDEO'',
                [''tmp'', ''ws'', ''temp_audio.wav''] \<mapsto> File ''RIFF''))
   \<and> decode ''Unknown encoder libmp3lame'' = Inr ''Unknown encoder libmp3lame''
   \<and> fst (extract_audio_for_download (Some wav_only_ffmpeg)
            ''/tmp/ws'' ''VIDEO'' ''clip.mp4'' ''mp3'' sample_world) = Inr None
   \<and> errors (snd (extract_audio_for_download (Some wav_only_ffmpeg)
            ''/tmp/ws'' ''VIDEO'' ''clip.mp4'' ''mp3'' sample_world)) =
       [''FFmpeg MP3 conversion failed! Output: Unknown encoder libmp3lame'']"
proof -
  let ?p = "sample_persisted ''clip.mp4'' ''VIDEO''"
  let ?c1 = "[''ffmpeg'', ''-y'', ''-i'', ''/tmp/ws/clip.mp4'', ''-vn'', ''-acodec'',
                   ''pcm_s16le'', ''/tmp/ws/temp_audio.wav'']"
  let ?fx = "sample_fs([''tmp'', ''ws''] \<mapsto> Dir,
                [''tmp'', ''ws'', ''clip.mp4''] \<mapsto> File ''VIDEO'',
                [''tmp'', ''ws'', ''temp_audio.wav''] \<mapsto> File ''RIFF'')"
  let ?wx = "\<lparr>fs = ?fx, calls = [?c1], errors = []\<rparr>"
  let ?xa = "[''-y'', ''-i'', temp_video_path ''/tmp/ws'' ''clip.mp4'', ''-vn'', ''-acodec'',
          ''pcm_s16le'', temp_audio_wav ''/tmp/ws'']"
  let ?ca = "[''-y'', ''-i'', temp_audio_wav ''/tmp/ws'', ''-acodec'', ''libmp3lame'', ''-q:a'',
          ''2'', final_audio_path ''/tmp/ws'' ''mp3'']"
  have m: "mkdtemp ''/tmp/ws'' sample_world = Inr ([''tmp'', ''ws''], sample_workspace)"
    by (simp add: model_defs)
  have p: "open_write (temp_video_path ''/tmp/ws'' ''clip.mp4'') ''VIDEO'' sample_workspace =
       Inr ?p"
    by (simp add: model_defs)
  have t: "fst (try_body (Some idle_ffmpeg) ''/tmp/ws'' ''clip.mp4'' ''mp3'' ?p) =
       Inl FileNotFoundError"
    by (simp add: model_defs)
  have f1: "failing_ffmpeg ''Invalid data found'' ?xa (fs ?p) =
       (1, ''Invalid data found'', fs ?p)"
    by (simp add: failing_ffmpeg_def)
  have one: "(1::int) \<noteq> 0"
    by simp
  have d1: "decode ''Invalid data found'' = Inr ''Invalid data found''"
    by (simp add: decode_def)
  have x2: "extract_audio_ffmpeg (Some wav_only_ffmpeg)
          (temp_video_path ''/tmp/ws'' ''clip.mp4'') (temp_audio_wav ''/tmp/ws'') ?p =
       (Inr (), ?wx)"
    by (simp add: model_defs)
  have f3: "wav_only_ffmpeg ?ca ?fx = (1, ''Unknown encoder libmp3lame'', ?fx)"
    by (simp add: wav_only_ffmpeg_def)
  have f3b: "wav_only_ffmpeg ?ca (fs ?wx) = (1, ''Unknown encoder libmp3lame'', ?fx)"
    by (simp add: wav_only_ffmpeg_def)
  have d3: "decode ''Unknown encoder libmp3lame'' = Inr ''Unknown encoder libmp3lame''"
    by (simp add: decode_def)
  have ew: "errors sample_world = []"
    by (simp add: sample_world_def)
  note th = failures_return_none_and_are_displayed [OF m p]
  have a: "fst (extract_audio_for_download (Some idle_ffmpeg) ''/tmp/ws'' ''VIDEO''
            ''clip.mp4'' ''mp3'' sample_world) = Inr None"
    using th [where tk = "Some idle_ffmpeg" and output_format = "''mp3''"
        and e = FileNotFoundError] t
    by blast
  have b: "fst (extract_audio_for_download None ''/tmp/ws'' ''VIDEO'' ''clip.mp4'' ''mp3''
            sample_world) = Inr None
     \<and> errors (snd (extract_audio_for_download None ''/tmp/ws'' ''VIDEO'' ''clip.mp4''
            ''mp3'' sample_world)) =
       [''FFmpeg not found. Please ensure it is installed and in your system PATH.'']"
    using th [where output_format = "''mp3''"] ew
    by simp
  have c: "fst (extract_audio_for_download (Some (failing_ffmpeg ''Invalid data found''))
            ''/tmp/ws'' ''VIDEO'' ''clip.mp4'' ''mp3'' sample_world) = Inr None
     \<and> errors (snd (extract_audio_for_download (Some (failing_ffmpeg ''Invalid data found''))
            ''/tmp/ws'' ''VIDEO'' ''clip.mp4'' ''mp3'' sample_world)) =
       errors sample_world @ [''FFmpeg extraction failed! Output: '' @ ''Invalid data found'']"
    using th [where prog = "failing_ffmpeg ''Invalid data found''" and rc = "1"
        and err = "''Invalid data found''" and g = "fs ?p" and diag = "''Invalid data found''"
        and output_format = "''mp3''"] f1 one d1
    by blast
  have e: "fst (extract_audio_for_download (Some wav_only_ffmpeg)
            ''/tmp/ws'' ''VIDEO'' ''clip.mp4'' ''mp3'' sample_world) = Inr None
     \<and> errors (snd (extract_audio_for_download (Some wav_only_ffmpeg)
            ''/tmp/ws'' ''VIDEO'' ''clip.mp4'' ''mp3'' sample_world)) =
       errors sample_world @
         [''FFmpeg MP3 conversion failed! Output: '' @ ''Unknown encoder libmp3lame'']"
    using th [where prog = wav_only_ffmpeg and rc = "1" and ?w2.0 = ?wx
        and err = "''Unknown encoder libmp3lame''" and g = ?fx
        and diag = "''Unknown encoder libmp3lame''"] x2 f3b one d3
    by blast
  from m p t a b f1 one d1 c x2 f3 d3 e show ?thesis
    by (simp add: ew)
qed

text \<open>
  The claim as first stated fails: a missing toolkit, a failed extraction, a failed encoding
  and an unreadable artifact all give the caller the same value, which carries neither a
  class nor a diagnostic text.
\<close>

theorem failures_are_one_unclassified_value:
  "fst (extract_audio_for_download None ''/tmp/ws'' ''VIDEO'' ''clip.mp4'' ''mp3''
          sample_world) = Inr None
   \<and> fst (extract_audio_for_download (Some (failing_ffmpeg ''moov atom not found''))
          ''/tmp/ws'' ''VIDEO'' ''clip.mp4'' ''mp3'' sample_world) = Inr None
   \<and> fst (extract_audio_for_download (Some wav_only_ffmpeg)
          ''/tmp/ws'' ''VIDEO'' ''clip.mp4'' ''mp3'' sample_world) = Inr None
   \<and> fst (extract_audio_for_download (Some idle_ffmpeg)
          ''/tmp/ws'' ''VIDEO'' ''clip.mp4'' ''mp3'' sample_world) = Inr None"
  by (simp add: model_defs)

subsection \<open>An input that the toolkit rejects\<close>

text \<open>
  Claim C2, as amended. A byte buffer that is not a valid media container is one on which
  the extraction call of the toolkit ends with a nonzero exit status. With the source
  persisted and the toolkit present, the entry point then returns \<^verbatim>\<open>None\<close> and never
  audio bytes, after exactly one call of the toolkit; the failure is named as an extraction
  failure only in the message displayed with \<^verbatim>\<open>st.error\<close>, which carries the toolkit's
  diagnostic text when that text decodes.
\<close>

theorem rejected_input_returns_none:
  assumes "mkdtemp temp_dir w = Inr (d, w0)"
    and "open_write (temp_video_path temp_dir original_filename) video_bytes w0 = Inr w1"
    and "prog [''-y'', ''-i'', temp_video_path temp_dir original_filename, ''-vn'', ''-acodec'',
               ''pcm_s16le'', temp_audio_wav temp_dir] (fs w1) = (rc, err, g)"
    and "rc \<noteq> 0"
  shows "fst (extract_audio_for_download (Some prog) temp_dir video_bytes original_filename
               output_format w) = Inr None
     \<and> calls (snd (extract_audio_for_download (Some prog) temp_dir video_bytes
               original_filename output_format w)) =
         calls w @
         [[''ffmpeg'', ''-y'', ''-i'', temp_video_path temp_dir original_filename, ''-vn'',
           ''-acodec'', ''pcm_s16le'', temp_audio_wav temp_dir]]
     \<and> errors (snd (extract_audio_for_download (Some prog) temp_dir video_bytes
               original_filename output_format w)) =
         errors w @
         (case decode err of
            Inl e \<Rightarrow> []
          | Inr diag \<Rightarrow> [''FFmpeg extraction failed! Output: '' @ diag])"
proof -
  let ?v = "temp_video_path temp_dir original_filename"
  let ?o = "temp_audio_wav temp_dir"
  have ew: "errors w1 = errors w" and cw: "calls w1 = calls w"
    using mkdtemp_fields(1,2) [OF assms(1)] open_write_fields [OF assms(2)] by simp_all
  have nv: "CHR 0x00 \<notin> set ?v"
    using assms(2) by (rule open_write_no_nul)
  note nw = temp_paths_no_nul [OF assms(1)]
  note x = extract_audio_ffmpeg_failed [where prog = prog and w = w1, OF nv nw(1) assms(3,4)]
  obtain e w2 where x2: "extract_audio_ffmpeg (Some prog) ?v ?o w1 = (Inl e, w2)"
    and c2: "calls w2 = calls w1 @ [[''ffmpeg'', ''-y'', ''-i'', ?v, ''-vn'', ''-acodec'',
        ''pcm_s16le'', ?o]]"
    and e2: "errors w2 = errors w1 @
         (case decode err of
            Inl e \<Rightarrow> []
          | Inr diag \<Rightarrow> [''FFmpeg extraction failed! Output: '' @ diag])"
    using x by (cases "decode err") auto
  show ?thesis
    using try_body_stops_at_extraction [OF x2, where fmt = output_format]
    by (simp add: efd_persisted [OF assms(1,2)] c2 e2 ew cw)
qed

theorem rejected_input_returns_none_witness:
  "mkdtemp ''/tmp/ws'' sample_world = Inr ([''tmp'', ''ws''], sample_workspace)
   \<and> open_write (temp_video_path ''/tmp/ws'' ''junk.mp4'') ''not a media container''
         sample_workspace = Inr (sample_persisted ''junk.mp4'' ''not a media container'')
   \<and> failing_ffmpeg ''Invalid data found when processing input''
         [''-y'', ''-i'', temp_video_path ''/tmp/ws'' ''junk.mp4'', ''-vn'', ''-acodec'',
          ''pcm_s16le'', temp_audio_wav ''/tmp/ws'']
         (fs (sample_persisted ''junk.mp4'' ''not a media container'')) =
       (1, ''Invalid data found when processing input'',
        fs (sample_persisted ''junk.mp4'' ''not a media container''))
   \<and> (1::int) \<noteq> 0
   \<and> fst (extract_audio_for_download
            (Some (failing_ffmpeg ''Invalid data found when processing input''))
            ''/tmp/ws'' ''not a media container'' ''junk.mp4'' ''mp3'' sample_world) = Inr None
   \<and> calls (snd (extract_audio_for_download
            (Some (failing_ffmpeg ''Invalid data found when processing input''))
            ''/tmp/ws'' ''not a media container'' ''junk.mp4'' ''mp3'' sample_world)) =
       [[''ffmpeg'', ''-y'', ''-i'', ''/tmp/ws/junk.mp4'', ''-vn'', ''-acodec'', ''pcm_s16le'',
         ''/tmp/ws/temp_audio.wav'']]
   \<and> errors (snd (extract_audio_for_download
            (Some (failing_ffmpeg ''Invalid data found when processing input''))
            ''/tmp/ws'' ''not a media container'' ''junk.mp4'' ''mp3'' sample_world)) =
       [''FFmpeg extraction failed! Output: Invalid data found when processing input'']"
proof -
  let ?p = "sample_persisted ''junk.mp4'' ''not a media container''"
  have m: "mkdtemp ''/tmp/ws'' sample_world = Inr ([''tmp'', ''ws''], sample_workspace)"
    by (simp add: model_defs)
  have p: "open_write (temp_video_path ''/tmp/ws'' ''junk.mp4'') ''not a media container''
         sample_workspace = Inr ?p"
    by (simp add: model_defs)
  have f: "failing_ffmpeg ''Invalid data found when processing input''
         [''-y'', ''-i'', temp_video_path ''/tmp/ws'' ''junk.mp4'', ''-vn'', ''-acodec'',
          ''pcm_s16le'', temp_audio_wav ''/tmp/ws''] (fs ?p) =
       (1, ''Invalid data found when processing input'', fs ?p)"
    by (simp add: failing_ffmpeg_def)
  have one: "(1::int) \<noteq> 0"
    by simp
  have dec: "decode ''Invalid data found when processing input'' =
      Inr ''Invalid data found when processing input''"
    by (simp add: decode_def)
  have n: "temp_video_path ''/tmp/ws'' ''junk.mp4'' = ''/tmp/ws/junk.mp4''"
    "temp_audio_wav ''/tmp/ws'' = ''/tmp/ws/temp_audio.wav''"
    "calls sample_world = []" "errors sample_world = []"
    by (simp_all add: model_defs)
  note th = rejected_input_returns_none [where prog =
      "failing_ffmpeg ''Invalid data found when processing input''"
      and output_format = "''mp3''", OF m p f one]
  have r: "fst (extract_audio_for_download
            (Some (failing_ffmpeg ''Invalid data found when processing input''))
            ''/tmp/ws'' ''not a media container'' ''junk.mp4'' ''mp3'' sample_world) = Inr None"
    using th by blast
  have c: "calls (snd (extract_audio_for_download
            (Some (failing_ffmpeg ''Invalid data found when processing input''))
            ''/tmp/ws'' ''not a media container'' ''junk.mp4'' ''mp3'' sample_world)) =
       [[''ffmpeg'', ''-y'', ''-i'', ''/tmp/ws/junk.mp4'', ''-vn'', ''-acodec'', ''pcm_s16le'',
         ''/tmp/ws/temp_audio.wav'']]"
    using th n by simp
  have e: "errors (snd (extract_audio_for_download
            (Some (failing_ffmpeg ''Invalid data found when processing input''))
            ''/tmp/ws'' ''not a media container'' ''junk.mp4'' ''mp3'' sample_world)) =
       [''FFmpeg extraction failed! Output: Invalid data found when processing input'']"
    using th n dec by simp
  from m p f one r c e show ?thesis by blast
qed

text \<open>
  The claim as first stated fails: the value returned for the rejected buffer is the value
  returned when the toolkit is missing, so it is not the class of an extraction failure.
\<close>

theorem rejected_input_value_is_not_a_classification:
  "fst (extract_audio_for_download
          (Some (failing_ffmpeg ''Invalid data found when processing input''))
          ''/tmp/ws'' ''not a media container'' ''junk.mp4'' ''wav'' sample_world) = Inr None
   \<and> fst (extract_audio_for_download None
          ''/tmp/ws'' ''not a media container'' ''junk.mp4'' ''wav'' sample_world) = Inr None"
  by (simp add: model_defs)

subsection \<open>The request cache\<close>

lemma cached_hit:
  assumes "c (vb, fn, fmt) = Some (v, msgs)"
  shows "cached_extract_audio_for_download tk td vb fn fmt (c, w) =
           (Inr v, c, w\<lparr>errors := errors w @ msgs\<rparr>)"
  using assms by (simp add: cached_extract_audio_for_download_def)

lemma cached_miss_returns:
  assumes "c (vb, fn, fmt) = None"
    and "extract_audio_for_download tk td vb fn fmt w = (Inr v, w')"
  shows "cached_extract_audio_for_download tk td vb fn fmt (c, w) =
           (Inr v, c((vb, fn, fmt) \<mapsto> (v, drop (length (errors w)) (errors w'))), w')"
  using assms by (simp add: cached_extract_audio_for_download_def)

lemma cached_miss_raises:
  assumes "c (vb, fn, fmt) = None"
    and "extract_audio_for_download tk td vb fn fmt w = (Inl e, w')"
  shows "cached_extract_audio_for_download tk td vb fn fmt (c, w) = (Inl e, c, w')"
  using assms by (simp add: cached_extract_audio_for_download_def)

lemma cached_returned_is_stored:
  assumes "cached_extract_audio_for_download tk td vb fn fmt (c, w) = (Inr v, c1, w1)"
  shows "\<exists>msgs. c1 (vb, fn, fmt) = Some (v, msgs)"
proof (cases "c (vb, fn, fmt)")
  case None
  obtain r w' where run: "extract_audio_for_download tk td vb fn fmt w = (r, w')"
    by (cases "extract_audio_for_download tk td vb fn fmt w")
  show ?thesis
  proof (cases r)
    case (Inl e)
    with assms None run show ?thesis
      by (simp add: cached_miss_raises)
  next
    case (Inr v')
    with assms None run show ?thesis
      by (auto simp: cached_miss_returns)
  qed
next
  case (Some a)
  obtain v' msgs where a: "a = (v', msgs)"
    by (cases a)
  with assms Some show ?thesis
    by (auto simp: cached_hit)
qed

lemma cached_repeat:
  assumes "cached_extract_audio_for_download tk td vb fn fmt (c, w) = (Inr v, c1, w1)"
  shows "\<exists>msgs. cached_extract_audio_for_download tk2 td2 vb fn fmt (c1, w1) =
           (Inr v, c1, w1\<lparr>errors := errors w1 @ msgs\<rparr>)"
proof -
  obtain msgs where stored: "c1 (vb, fn, fmt) = Some (v, msgs)"
    using cached_returned_is_stored [OF assms] by blast
  show ?thesis
    using cached_hit [where c = c1, OF stored] by blast
qed

text \<open>
  Claim C8, as amended. Two successive calls with the same bytes, filename and target
  format: when the first call returns a value, the second returns the same value from the
  cache, whatever the toolkit and the temporary name of the second call are, and it makes
  no call of the toolkit and leaves the file system and the cache as they were.
\<close>

theorem second_identical_call_is_served_from_cache:
  assumes "fst (cached_extract_audio_for_download tk temp_dir video_bytes original_filename
                  output_format cw) = Inr v"
  shows "fst (cached_extract_audio_for_download tk2 temp_dir2 video_bytes original_filename
                output_format
                (snd (cached_extract_audio_for_download tk temp_dir video_bytes
                        original_filename output_format cw))) = Inr v
     \<and> calls (snd (snd (cached_extract_audio_for_download tk2 temp_dir2 video_bytes
                original_filename output_format
                (snd (cached_extract_audio_for_download tk temp_dir video_bytes
                        original_filename output_format cw))))) =
         calls (snd (snd (cached_extract_audio_for_download tk temp_dir video_bytes
                        original_filename output_format cw)))
     \<and> fs (snd (snd (cached_extract_audio_for_download tk2 temp_dir2 video_bytes
                original_filename output_format
                (snd (cached_extract_audio_for_download tk temp_dir video_bytes
                        original_filename output_format cw))))) =
         fs (snd (snd (cached_extract_audio_for_download tk temp_dir video_bytes
                        original_filename output_format cw)))
     \<and> fst (snd (cached_extract_audio_for_download tk2 temp_dir2 video_bytes
                original_filename output_format
                (snd (cached_extract_audio_for_download tk temp_dir video_bytes
                        original_filename output_format cw)))) =
         fst (snd (cached_extract_audio_for_download tk temp_dir video_bytes
                        original_filename output_format cw))"
proof -
  obtain c w where cw: "cw = (c, w)"
    by (cases cw)
  obtain r c1 w1 where first: "cached_extract_audio_for_download tk temp_dir video_bytes
      original_filename output_format (c, w) = (r, c1, w1)"
    by (cases "cached_extract_audio_for_download tk temp_dir video_bytes
      original_filename output_format (c, w)")
  have r: "r = Inr v"
    using assms first cw by simp
  obtain msgs where again: "cached_extract_audio_for_download tk2 temp_dir2 video_bytes
      original_filename output_format (c1, w1) = (Inr v, c1, w1\<lparr>errors := errors w1 @ msgs\<rparr>)"
    using cached_repeat first r by blast
  show ?thesis
    unfolding cw first
    by (simp add: again)
qed

theorem second_identical_call_is_served_from_cache_witness:
  "fst (cached_extract_audio_for_download (Some writing_ffmpeg) ''/tmp/ws'' ''VIDEO''
          ''clip.mp4'' ''mp3'' (Map.empty, sample_world)) = Inr (Some ''ID3'')
   \<and> fst (cached_extract_audio_for_download None ''/tmp/other'' ''VIDEO'' ''clip.mp4'' ''mp3''
          (snd (cached_extract_audio_for_download (Some writing_ffmpeg) ''/tmp/ws'' ''VIDEO''
                  ''clip.mp4'' ''mp3'' (Map.empty, sample_world)))) = Inr (Some ''ID3'')
   \<and> calls (snd (snd (cached_extract_audio_for_download (Some writing_ffmpeg) ''/tmp/ws''
          ''VIDEO'' ''clip.mp4'' ''mp3'' (Map.empty, sample_world)))) =
       [[''ffmpeg'', ''-y'', ''-i'', ''/tmp/ws/clip.mp4'', ''-vn'', ''-acodec'', ''pcm_s16le'',
         ''/tmp/ws/temp_audio.wav''],
        [''ffmpeg'', ''-y'', ''-i'', ''/tmp/ws/temp_audio.wav'', ''-acodec'', ''libmp3lame'',
         ''-q:a'', ''2'', ''/tmp/ws/extracted_audio.mp3'']]
   \<and> calls (snd (snd (cached_extract_audio_for_download None ''/tmp/other'' ''VIDEO''
          ''clip.mp4'' ''mp3''
          (snd (cached_extract_audio_for_download (Some writing_ffmpeg) ''/tmp/ws'' ''VIDEO''
                  ''clip.mp4'' ''mp3'' (Map.empty, sample_world)))))) =
       [[''ffmpeg'', ''-y'', ''-i'', ''/tmp/ws/clip.mp4'', ''-vn'', ''-acodec'', ''pcm_s16le'',
         ''/tmp/ws/temp_audio.wav''],
        [''ffmpeg'', ''-y'', ''-i'', ''/tmp/ws/temp_audio.wav'', ''-acodec'', ''libmp3lame'',
         ''-q:a'', ''2'', ''/tmp/ws/extracted_audio.mp3'']]"
proof -
  let ?first = "cached_extract_audio_for_download (Some writing_ffmpeg) ''/tmp/ws'' ''VIDEO''
          ''clip.mp4'' ''mp3'' (Map.empty, sample_world)"
  have h: "fst ?first = Inr (Some ''ID3'')"
    by (simp add: cached_extract_audio_for_download_def model_defs)
  have c: "calls (snd (snd ?first)) =
       [[''ffmpeg'', ''-y'', ''-i'', ''/tmp/ws/clip.mp4'', ''-vn'', ''-acodec'', ''pcm_s16le'',
         ''/tmp/ws/temp_audio.wav''],
        [''ffmpeg'', ''-y'', ''-i'', ''/tmp/ws/temp_audio.wav'', ''-acodec'', ''libmp3lame'',
         ''-q:a'', ''2'', ''/tmp/ws/extracted_audio.mp3'']]"
    by (simp add: cached_extract_audio_for_download_def model_defs)
  from second_identical_call_is_served_from_cache [OF h, of None "''/tmp/other''"] h c
  show ?thesis
    by simp
qed

text \<open>
  The claim as first stated, for every first call, fails: a first call that leaves the
  entry point by an exception stores nothing, so the identical second call is not served
  from the cache; it runs the pipeline, calls the toolkit and returns bytes.
\<close>

theorem raising_first_call_is_not_served_from_cache:
  "fst (cached_extract_audio_for_download (Some writing_ffmpeg) ''/nowhere/ws'' ''VIDEO''
          ''clip.mp4'' ''mp3'' (Map.empty, sample_world)) = Inl FileNotFoundError
   \<and> fst (snd (cached_extract_audio_for_download (Some writing_ffmpeg) ''/nowhere/ws''
          ''VIDEO'' ''clip.mp4'' ''mp3'' (Map.empty, sample_world)))
         (''VIDEO'', ''clip.mp4'', ''mp3'') = None
   \<and> calls (snd (snd (cached_extract_audio_for_download (Some writing_ffmpeg)
          ''/nowhere/ws'' ''VIDEO'' ''clip.mp4'' ''mp3'' (Map.empty, sample_world)))) = []
   \<and> fst (cached_extract_audio_for_download (Some writing_ffmpeg) ''/tmp/ws'' ''VIDEO''
          ''clip.mp4'' ''mp3''
          (snd (cached_extract_audio_for_download (Some writing_ffmpeg) ''/nowhere/ws''
                  ''VIDEO'' ''clip.mp4'' ''mp3'' (Map.empty, sample_world)))) =
       Inr (Some ''ID3'')
   \<and> calls (snd (snd (cached_extract_audio_for_download (Some writing_ffmpeg) ''/tmp/ws''
          ''VIDEO'' ''clip.mp4'' ''mp3''
          (snd (cached_extract_audio_for_download (Some writing_ffmpeg) ''/nowhere/ws''
                  ''VIDEO'' ''clip.mp4'' ''mp3'' (Map.empty, sample_world)))))) =
       [[''ffmpeg'', ''-y'', ''-i'', ''/tmp/ws/clip.mp4'', ''-vn'', ''-acodec'', ''pcm_s16le'',
         ''/tmp/ws/temp_audio.wav''],
        [''ffmpeg'', ''-y'', ''-i'', ''/tmp/ws/temp_audio.wav'', ''-acodec'', ''libmp3lame'',
         ''-q:a'', ''2'', ''/tmp/ws/extracted_audio.mp3'']]"
  by (simp add: cached_extract_audio_for_download_def model_defs)

text \<open>
  Claim C4, as amended. The cache stores every value that the entry point returns, the
  failure value \<^verbatim>\<open>None\<close> included; only a run that leaves the entry point by an
  exception stores nothing. After a run that returned \<^verbatim>\<open>None\<close>, an identical request
  is answered with \<^verbatim>\<open>None\<close> from the cache and the pipeline is not run again.
\<close>

theorem every_returned_value_is_cached:
  assumes "fst cw (video_bytes, original_filename, output_format) = None"
  shows
    "(fst (extract_audio_for_download tk temp_dir video_bytes original_filename output_format
             (snd cw)) = Inr v \<longrightarrow>
        map_option fst
          (fst (snd (cached_extract_audio_for_download tk temp_dir video_bytes
                       original_filename output_format cw))
             (video_bytes, original_filename, output_format)) = Some v)
     \<and> (fst (extract_audio_for_download tk temp_dir video_bytes original_filename
               output_format (snd cw)) = Inl e \<longrightarrow>
        fst (snd (cached_extract_audio_for_download tk temp_dir video_bytes
                    original_filename output_format cw)) = fst cw)
     \<and> (fst (extract_audio_for_download tk temp_dir video_bytes original_filename
               output_format (snd cw)) = Inr None \<longrightarrow>
        fst (cached_extract_audio_for_download tk2 temp_dir2 video_bytes original_filename
               output_format
               (snd (cached_extract_audio_for_download tk temp_dir video_bytes
                       original_filename output_format cw))) = Inr None
        \<and> calls (snd (snd (cached_extract_audio_for_download tk2 temp_dir2 video_bytes
               original_filename output_format
               (snd (cached_extract_audio_for_download tk temp_dir video_bytes
                       original_filename output_format cw))))) =
            calls (snd (snd (cached_extract_audio_for_download tk temp_dir video_bytes
                       original_filename output_format cw))))"
  (is "?A \<and> ?B \<and> ?C")
proof -
  obtain c w where cw: "cw = (c, w)"
    by (cases cw)
  have miss: "c (video_bytes, original_filename, output_format) = None"
    using assms cw by simp
  obtain r w' where run: "extract_audio_for_download tk temp_dir video_bytes original_filename
      output_format w = (r, w')"
    by (cases "extract_audio_for_download tk temp_dir video_bytes original_filename
      output_format w")
  have a: ?A
  proof
    assume "fst (extract_audio_for_download tk temp_dir video_bytes original_filename
             output_format (snd cw)) = Inr v"
    then have "extract_audio_for_download tk temp_dir video_bytes original_filename
             output_format w = (Inr v, w')"
      using run cw by simp
    from cached_miss_returns [where c = c, OF miss this]
    show "map_option fst
          (fst (snd (cached_extract_audio_for_download tk temp_dir video_bytes
                       original_filename output_format cw))
             (video_bytes, original_filename, output_format)) = Some v"
      by (simp add: cw)
  qed
  have b: ?B
  proof
    assume "fst (extract_audio_for_download tk temp_dir video_bytes original_filename
               output_format (snd cw)) = Inl e"
    then have "extract_audio_for_download tk temp_dir video_bytes original_filename
             output_format w = (Inl e, w')"
      using run cw by simp
    from cached_miss_raises [where c = c, OF miss this]
    show "fst (snd (cached_extract_audio_for_download tk temp_dir video_bytes
                    original_filename output_format cw)) = fst cw"
      by (simp add: cw)
  qed
  have c: ?C
  proof
    assume "fst (extract_audio_for_download tk temp_dir video_bytes original_filename
               output_format (snd cw)) = Inr None"
    then have "extract_audio_for_download tk temp_dir video_bytes original_filename
             output_format w = (Inr None, w')"
      using run cw by simp
    note first = cached_miss_returns [where c = c, OF miss this]
    obtain msgs where again: "cached_extract_audio_for_download tk2 temp_dir2 video_bytes
        original_filename output_format
        (c((video_bytes, original_filename, output_format) \<mapsto>
             (None, drop (length (errors w)) (errors w'))), w') =
        (Inr None,
         c((video_bytes, original_filename, output_format) \<mapsto>
             (None, drop (length (errors w)) (errors w'))),
         w'\<lparr>errors := errors w' @ msgs\<rparr>)"
      using cached_repeat [OF first] by blast
    show "fst (cached_extract_audio_for_download tk2 temp_dir2 video_bytes original_filename
               output_format
               (snd (cached_extract_audio_for_download tk temp_dir video_bytes
                       original_filename output_format cw))) = Inr None
        \<and> calls (snd (snd (cached_extract_audio_for_download tk2 temp_dir2 video_bytes
               original_filename output_format
               (snd (cached_extract_audio_for_download tk temp_dir video_bytes
                       original_filename output_format cw))))) =
            calls (snd (snd (cached_extract_audio_for_download tk temp_dir video_bytes
                       original_filename output_format cw)))"
      unfolding cw first by (simp add: again)
  qed
  from a b c show ?thesis by blast
qed

theorem every_returned_value_is_cached_witness:
  "fst (Map.empty :: cache, sample_world) (''VIDEO'', ''clip.mp4'', ''mp3'') = None
   \<and> fst (extract_audio_for_download (Some writing_ffmpeg) ''/tmp/ws'' ''VIDEO'' ''clip.mp4''
          ''mp3'' (snd (Map.empty :: cache, sample_world))) = Inr (Some ''ID3'')
   \<and> map_option fst
        (fst (snd (cached_extract_audio_for_download (Some writing_ffmpeg) ''/tmp/ws''
                     ''VIDEO'' ''clip.mp4'' ''mp3'' (Map.empty, sample_world)))
           (''VIDEO'', ''clip.mp4'', ''mp3'')) = Some (Some ''ID3'')
   \<and> fst (Map.empty :: cache, sample_world) (''VIDEO'', [], ''mp3'') = None
   \<and> fst (extract_audio_for_download (Some writing_ffmpeg) ''/tmp/ws'' ''VIDEO'' []
          ''mp3'' (snd (Map.empty :: cache, sample_world))) = Inl IsADirectoryError
   \<and> fst (snd (cached_extract_audio_for_download (Some writing_ffmpeg) ''/tmp/ws''
                  ''VIDEO'' [] ''mp3'' (Map.empty, sample_world))) = Map.empty
   \<and> fst (extract_audio_for_download (Some (failing_ffmpeg ''Connection timed out''))
          ''/tmp/ws'' ''VIDEO'' ''clip.mp4'' ''mp3'' (snd (Map.empty :: cache, sample_world))) =
       Inr None
   \<and> fst (cached_extract_audio_for_download (Some writing_ffmpeg) ''/tmp/other'' ''VIDEO''
          ''clip.mp4'' ''mp3''
          (snd (cached_extract_audio_for_download
                  (Some (failing_ffmpeg ''Connection timed out'')) ''/tmp/ws'' ''VIDEO''
                  ''clip.mp4'' ''mp3'' (Map.empty, sample_world)))) = Inr None
   \<and> calls (snd (snd (cached_extract_audio_for_download (Some writing_ffmpeg) ''/tmp/other''
          ''VIDEO'' ''clip.mp4'' ''mp3''
          (snd (cached_extract_audio_for_download
                  (Some (failing_ffmpeg ''Connection timed out'')) ''/tmp/ws'' ''VIDEO''
                  ''clip.mp4'' ''mp3'' (Map.empty, sample_world)))))) =
       calls (snd (snd (cached_extract_audio_for_download
                  (Some (failing_ffmpeg ''Connection timed out'')) ''/tmp/ws'' ''VIDEO''
                  ''clip.mp4'' ''mp3'' (Map.empty, sample_world))))"
proof -
  let ?cw = "(Map.empty :: cache, sample_world)"
  have m1: "fst ?cw (''VIDEO'', ''clip.mp4'', ''mp3'') = None"
    and m2: "fst ?cw (''VIDEO'', [], ''mp3'') = None"
    by simp_all
  have r1: "fst (extract_audio_for_download (Some writing_ffmpeg) ''/tmp/ws'' ''VIDEO''
      ''clip.mp4'' ''mp3'' (snd ?cw)) = Inr (Some ''ID3'')"
    by (simp add: model_defs)
  have r2: "fst (extract_audio_for_download (Some writing_ffmpeg) ''/tmp/ws'' ''VIDEO'' []
      ''mp3'' (snd ?cw)) = Inl IsADirectoryError"
    by (simp add: model_defs)
  have r3: "fst (extract_audio_for_download (Some (failing_ffmpeg ''Connection timed out''))
      ''/tmp/ws'' ''VIDEO'' ''clip.mp4'' ''mp3'' (snd ?cw)) = Inr None"
    by (simp add: model_defs)
  note th1 = every_returned_value_is_cached [OF m1]
  note th2 = every_returned_value_is_cached [OF m2]
  have a: "map_option fst
        (fst (snd (cached_extract_audio_for_download (Some writing_ffmpeg) ''/tmp/ws''
                     ''VIDEO'' ''clip.mp4'' ''mp3'' ?cw))
           (''VIDEO'', ''clip.mp4'', ''mp3'')) = Some (Some ''ID3'')"
    using th1 [where tk = "Some writing_ffmpeg" and temp_dir = "''/tmp/ws''"
        and v = "Some ''ID3''"] r1
    by blast
  have b: "fst (snd (cached_extract_audio_for_download (Some writing_ffmpeg) ''/tmp/ws''
                  ''VIDEO'' [] ''mp3'' ?cw)) = Map.empty"
    using th2 [where tk = "Some writing_ffmpeg" and temp_dir = "''/tmp/ws''"
        and e = IsADirectoryError] r2
    by simp
  have c: "fst (cached_extract_audio_for_download (Some writing_ffmpeg) ''/tmp/other'' ''VIDEO''
          ''clip.mp4'' ''mp3''
          (snd (cached_extract_audio_for_download
                  (Some (failing_ffmpeg ''Connection timed out'')) ''/tmp/ws'' ''VIDEO''
                  ''clip.mp4'' ''mp3'' ?cw))) = Inr None
   \<and> calls (snd (snd (cached_extract_audio_for_download (Some writing_ffmpeg) ''/tmp/other''
          ''VIDEO'' ''clip.mp4'' ''mp3''
          (snd (cached_extract_audio_for_download
                  (Some (failing_ffmpeg ''Connection timed out'')) ''/tmp/ws'' ''VIDEO''
                  ''clip.mp4'' ''mp3'' ?cw))))) =
       calls (snd (snd (cached_extract_audio_for_download
                  (Some (failing_ffmpeg ''Connection timed out'')) ''/tmp/ws'' ''VIDEO''
                  ''clip.mp4'' ''mp3'' ?cw)))"
    using th1 [where tk = "Some (failing_ffmpeg ''Connection timed out'')"
        and temp_dir = "''/tmp/ws''" and ?tk2.0 = "Some writing_ffmpeg"
        and ?temp_dir2.0 = "''/tmp/other''"] r3
    by blast
  from m1 r1 a m2 r2 b r3 c show ?thesis
    by blast
qed

text \<open>
  The claim as first stated fails: after a run in which the toolkit failed, the cache holds
  \<^verbatim>\<open>None\<close> under the key, and the identical request gets \<^verbatim>\<open>None\<close> with no further
  call of the toolkit, although the pipeline would now succeed.
\<close>

theorem failed_result_is_cached:
  "fst (cached_extract_audio_for_download (Some (failing_ffmpeg ''Connection timed out''))
          ''/tmp/ws'' ''VIDEO'' ''clip.mp4'' ''mp3'' (Map.empty, sample_world)) = Inr None
   \<and> map_option fst
        (fst (snd (cached_extract_audio_for_download
                     (Some (failing_ffmpeg ''Connection timed out''))
                     ''/tmp/ws'' ''VIDEO'' ''clip.mp4'' ''mp3'' (Map.empty, sample_world)))
           (''VIDEO'', ''clip.mp4'', ''mp3'')) = Some None
   \<and> fst (extract_audio_for_download (Some writing_ffmpeg) ''/tmp/ws'' ''VIDEO'' ''clip.mp4''
          ''mp3''
          (snd (snd (cached_extract_audio_for_download
                       (Some (failing_ffmpeg ''Connection timed out''))
                       ''/tmp/ws'' ''VIDEO'' ''clip.mp4'' ''mp3'' (Map.empty, sample_world)))))
       = Inr (Some ''ID3'')
   \<and> fst (cached_extract_audio_for_download (Some writing_ffmpeg) ''/tmp/ws'' ''VIDEO''
          ''clip.mp4'' ''mp3''
          (snd (cached_extract_audio_for_download
                  (Some (failing_ffmpeg ''Connection timed out''))
                  ''/tmp/ws'' ''VIDEO'' ''clip.mp4'' ''mp3'' (Map.empty, sample_world))))
       = Inr None
   \<and> calls (snd (snd (cached_extract_audio_for_download (Some writing_ffmpeg) ''/tmp/ws''
          ''VIDEO'' ''clip.mp4'' ''mp3''
          (snd (cached_extract_audio_for_download
                  (Some (failing_ffmpeg ''Connection timed out''))
                  ''/tmp/ws'' ''VIDEO'' ''clip.mp4'' ''mp3'' (Map.empty, sample_world))))))
       = [[''ffmpeg'', ''-y'', ''-i'', ''/tmp/ws/clip.mp4'', ''-vn'', ''-acodec'',
           ''pcm_s16le'', ''/tmp/ws/temp_audio.wav'']]"
  by (simp add: cached_extract_audio_for_download_def model_defs)

subsection \<open>Paths inside the temporary directory\<close>



























subsection \<open>Cleaning up\<close>






end
